theory Spec2Isabelle
  imports Complex_Main "HOL-Library.Log_Nat"
begin

section \<open>JavaScript values\<close>

text \<open>
  The handlers of the student routes (\<^verbatim>\<open>routes/studentRoutes.js\<close>) and of the
  authentication routes (\<^verbatim>\<open>routes/authRoutes.js\<close>) read JSON request bodies and
  Mongoose documents. A field of either is a JavaScript value; a field that is absent reads
  as \<^verbatim>\<open>undefined\<close>. The values modelled are the scalars of JSON together with
  \<^verbatim>\<open>undefined\<close>.

  A number is \<^verbatim>\<open>NaN\<close>, an infinity or a finite value. Every finite double is a
  rational, so finite numbers are rationals, and the sum of two of them is the double
  nearest to their exact sum. The sign of zero is not modelled.

  Strings are lists of characters; lengths and case conversion are those of ASCII text.
\<close>

datatype jsnum = NaN | PosInf | NegInf | Fin rat

datatype jsval = JUndefined | JNull | JBool bool | JNum jsnum | JStr string

text \<open>A parsed JSON object: its keys in insertion order.\<close>

type_synonym jsobj = "(string \<times> jsval) list"

text \<open>\<^verbatim>\<open>obj.key\<close>: the value under the key, \<^verbatim>\<open>undefined\<close> when the key is absent.\<close>

definition js_get :: "jsobj \<Rightarrow> string \<Rightarrow> jsval" where
  "js_get obj k = (case map_of obj k of None \<Rightarrow> JUndefined | Some v \<Rightarrow> v)"

text \<open>
  \<^verbatim>\<open>{...obj, key: v}\<close>: an existing key keeps its place and takes the new value, a new
  key is appended.
\<close>

fun js_spread_set :: "jsobj \<Rightarrow> string \<Rightarrow> jsval \<Rightarrow> jsobj" where
  "js_spread_set [] k v = [(k, v)]"
| "js_spread_set (p # ps) k v = (if fst p = k then (k, v) # ps else p # js_spread_set ps k v)"

text \<open>ToBoolean.\<close>

fun truthy :: "jsval \<Rightarrow> bool" where
  "truthy JUndefined = False"
| "truthy JNull = False"
| "truthy (JBool b) = b"
| "truthy (JNum NaN) = False"
| "truthy (JNum PosInf) = True"
| "truthy (JNum NegInf) = True"
| "truthy (JNum (Fin r)) = (r \<noteq> 0)"
| "truthy (JStr s) = (s \<noteq> [])"

text \<open>\<^verbatim>\<open>a || b\<close>.\<close>

definition js_or :: "jsval \<Rightarrow> jsval \<Rightarrow> jsval" where
  "js_or a b = (if truthy a then a else b)"

text \<open>
  \<^verbatim>\<open>Number(v)\<close>. The conversion of a string (StringToNumber of the language) is a
  parameter, \<open>s2n\<close>.
\<close>

fun js_Number :: "(string \<Rightarrow> jsnum) \<Rightarrow> jsval \<Rightarrow> jsnum" where
  "js_Number s2n JUndefined = NaN"
| "js_Number s2n JNull = Fin 0"
| "js_Number s2n (JBool b) = (if b then Fin 1 else Fin 0)"
| "js_Number s2n (JNum n) = n"
| "js_Number s2n (JStr s) = s2n s"

text \<open>
  Rounding to a double (IEEE 754 binary64, round to nearest, ties to even). \<open>pow2 k\<close> is
  the power of two with the integer exponent \<open>k\<close>, and \<open>ilog2 a\<close> the integer part of
  the binary logarithm of a positive rational. A double has 53 significant bits and its
  exponent is at least -1022, so the doubles next to a positive \<open>a\<close> are the multiples
  of \<open>pow2 (e - 52)\<close>, where \<open>e\<close> is the larger of \<open>ilog2 a\<close> and -1022; a result of
  \<open>pow2 1024\<close> or more is an infinity.
\<close>

definition pow2 :: "int \<Rightarrow> rat" where
  "pow2 k = (if 0 \<le> k then 2 ^ nat k else 1 / 2 ^ nat (- k))"

definition ilog2 :: "rat \<Rightarrow> int" where
  "ilog2 a = (if 1 \<le> a then bitlen \<lfloor>a\<rfloor> - 1 else - bitlen (\<lceil>1 / a\<rceil> - 1))"

definition round_half_even :: "rat \<Rightarrow> int" where
  "round_half_even t =
     (let f = \<lfloor>t\<rfloor>; r = t - of_int f
      in if r < 1 / 2 then f else if 1 / 2 < r then f + 1 else if even f then f else f + 1)"

definition round_double :: "rat \<Rightarrow> jsnum" where
  "round_double x =
     (if x = 0 then Fin 0
      else
        (let a = \<bar>x\<bar>;
             e = max (ilog2 a) (- 1022);
             q = pow2 (e - 52);
             r = of_int (round_half_even (a / q)) * q
         in if pow2 1024 \<le> r then (if 0 < x then PosInf else NegInf)
            else Fin (if 0 < x then r else - r)))"

text \<open>\<^verbatim>\<open>a + b\<close> on numbers: the exact sum of two finite numbers, rounded.\<close>

fun js_add :: "jsnum \<Rightarrow> jsnum \<Rightarrow> jsnum" where
  "js_add NaN b = NaN"
| "js_add a NaN = NaN"
| "js_add PosInf NegInf = NaN"
| "js_add NegInf PosInf = NaN"
| "js_add PosInf b = PosInf"
| "js_add NegInf b = NegInf"
| "js_add (Fin x) PosInf = PosInf"
| "js_add (Fin x) NegInf = NegInf"
| "js_add (Fin x) (Fin y) = round_double (x + y)"

text \<open>\<^verbatim>\<open>a < b\<close> on numbers: false as soon as one side is \<^verbatim>\<open>NaN\<close>.\<close>

fun js_less :: "jsnum \<Rightarrow> jsnum \<Rightarrow> bool" where
  "js_less NaN b = False"
| "js_less a NaN = False"
| "js_less PosInf b = False"
| "js_less NegInf b = (b \<noteq> NegInf)"
| "js_less (Fin x) PosInf = True"
| "js_less (Fin x) NegInf = False"
| "js_less (Fin x) (Fin y) = (x < y)"

datatype js_error = TypeError

text \<open>
  \<^verbatim>\<open>v.length\<close>: reading a property of \<^verbatim>\<open>undefined\<close> or \<^verbatim>\<open>null\<close> throws a
  TypeError; a string has its length; a boolean or a number has no such property.
\<close>

fun js_length :: "jsval \<Rightarrow> js_error + jsval" where
  "js_length JUndefined = Inl TypeError"
| "js_length JNull = Inl TypeError"
| "js_length (JStr s) = Inr (JNum (Fin (of_nat (length s))))"
| "js_length (JBool b) = Inr JUndefined"
| "js_length (JNum n) = Inr JUndefined"

text \<open>\<^verbatim>\<open>String.prototype.toLowerCase\<close> on ASCII text.\<close>

definition lower_char :: "char \<Rightarrow> char" where
  "lower_char c =
     (case map_of (zip ''ABCDEFGHIJKLMNOPQRSTUVWXYZ'' ''abcdefghijklmnopqrstuvwxyz'') c of
        None \<Rightarrow> c
      | Some l \<Rightarrow> l)"

definition toLowerCase :: "string \<Rightarrow> string" where
  "toLowerCase s = map lower_char s"

text \<open>
  \<^verbatim>\<open>path.extname\<close> of Node (POSIX flavour): the extension of the last portion of the
  path, from its last dot to its end, trailing slashes apart. It is empty when the last
  portion has no dot, when its only dot is its first character, and when it is
  \<^verbatim>\<open>..\<close>.
\<close>

definition last_portion :: "string \<Rightarrow> string" where
  "last_portion p =
     rev (takeWhile (\<lambda>c. c \<noteq> CHR ''/'') (dropWhile (\<lambda>c. c = CHR ''/'') (rev p)))"

definition path_extname :: "string \<Rightarrow> string" where
  "path_extname p =
     (let b = last_portion p;
          after_dot = rev (takeWhile (\<lambda>c. c \<noteq> CHR ''.'') (rev b));
          before_dot = rev (drop 1 (dropWhile (\<lambda>c. c \<noteq> CHR ''.'') (rev b)))
      in if CHR ''.'' \<notin> set b then []
         else if before_dot = [] then []
         else if b = ''..'' then []
         else CHR ''.'' # after_dot)"

text \<open>
  \<^verbatim>\<open>/zip|pdf|mp4|mov|avi|mkv/.test(s)\<close>: the expression has no anchor, so it holds as
  soon as one of the alternatives occurs somewhere in \<open>s\<close>.
\<close>

fun starts_with :: "string \<Rightarrow> string \<Rightarrow> bool" where
  "starts_with [] s = True"
| "starts_with (p # ps) [] = False"
| "starts_with (p # ps) (c # cs) = (p = c \<and> starts_with ps cs)"

fun occurs_in :: "string \<Rightarrow> string \<Rightarrow> bool" where
  "occurs_in pat [] = starts_with pat []"
| "occurs_in pat (c # cs) = (starts_with pat (c # cs) \<or> occurs_in pat cs)"

definition filetypes :: "string list" where
  "filetypes = [''zip'', ''pdf'', ''mp4'', ''mov'', ''avi'', ''mkv'']"

definition filetypes_test :: "string \<Rightarrow> bool" where
  "filetypes_test s = list_ex (\<lambda>pat. occurs_in pat s) filetypes"

section \<open>Documents and the store\<close>

text \<open>
  \<^verbatim>\<open>models/User.js\<close>. An ObjectId is the string of its hexadecimal digits; a reference
  to a user (\<open>assignedDeveloper\<close>) is the value \<open>JStr\<close> of that string, and
  \<^verbatim>\<open>undefined\<close> while it is not set. The role is one of the two values of the schema's
  enumeration. The timestamps kept by the store are not modelled, and neither is its
  casting of an assigned value to the type the schema declares for the field: a document
  holds the values the handlers assign.
\<close>

datatype role = Developer | Student

record user =
  uid :: string
  name :: jsval
  username :: jsval
  password :: jsval
  role :: role
  documentPath :: jsval
  pdfPath :: jsval
  zipPath :: jsval
  videoPath :: jsval
  assignedDeveloper :: jsval

text \<open>
  \<^verbatim>\<open>models/Project.js\<close>. \<open>invoiceDetails\<close> is \<open>None\<close> while the project has none.
\<close>

record project =
  pid :: string
  title :: jsval
  description :: jsval
  student :: jsval
  submissionDate :: jsval
  frontend :: jsval
  backend :: jsval
  database :: jsval
  amount :: jsval
  status :: jsval
  invoiceDetails :: "jsobj option"

text \<open>The two collections, in the order of the store.\<close>

record db =
  users :: "user list"
  projects :: "project list"

text \<open>
  An awaited call of the store can reject (a lost connection, a failed cast or
  validation). Which call rejects, if one does, is an input of every handler: a read
  (\<^verbatim>\<open>find\<close>, \<^verbatim>\<open>findOne\<close>, \<^verbatim>\<open>findById\<close>) or a write (\<^verbatim>\<open>save\<close>,
  \<^verbatim>\<open>create\<close>), with the message of the error. A write that rejects stores nothing.
\<close>

datatype store_fault = NoFault | ReadRejects string | WriteRejects string

definition User_findById :: "db \<Rightarrow> string \<Rightarrow> user option" where
  "User_findById d i = find (\<lambda>u. uid u = i) (users d)"

definition Project_findById :: "db \<Rightarrow> string \<Rightarrow> project option" where
  "Project_findById d i = find (\<lambda>p. pid p = i) (projects d)"

text \<open>\<^verbatim>\<open>doc.save()\<close> of a document that was read from the store: it replaces the stored
  document of the same id.\<close>

fun replace_doc :: "('a \<Rightarrow> string) \<Rightarrow> 'a \<Rightarrow> 'a list \<Rightarrow> 'a list" where
  "replace_doc key doc [] = []"
| "replace_doc key doc (x # xs) =
     (if key x = key doc then doc # xs else x # replace_doc key doc xs)"

definition User_save :: "user \<Rightarrow> db \<Rightarrow> db" where
  "User_save u d = d\<lparr>users := replace_doc uid u (users d)\<rparr>"

definition Project_save :: "project \<Rightarrow> db \<Rightarrow> db" where
  "Project_save p d = d\<lparr>projects := replace_doc pid p (projects d)\<rparr>"

section \<open>The schema types of the store\<close>

text \<open>
  The two schemas declare the type of every field, and the store (Mongoose) casts a value
  to that type when it is assigned and validates the document when it is saved. What the
  sources do not fix of the library is a parameter: the text of a number that is not an
  integer below \<open>10 ^ 21\<close> (\<^verbatim>\<open>Number.prototype.toString\<close>), the cast of a value to a
  date (\<open>None\<close> when the cast fails), and the message of the validation error for the
  paths that fail.
\<close>

record mongoose =
  number_text :: "rat \<Rightarrow> string"
  cast_Date :: "jsval \<Rightarrow> jsval option"
  validation_message :: "string list \<Rightarrow> string"

text \<open>The decimal digits of a natural number.\<close>

definition digit_char :: "nat \<Rightarrow> char" where
  "digit_char n = ''0123456789'' ! n"

fun decimal :: "nat \<Rightarrow> string" where
  "decimal n = (if n < 10 then [digit_char n] else decimal (n div 10) @ [digit_char (n mod 10)])"

declare decimal.simps [simp del]

text \<open>
  \<^verbatim>\<open>Number.prototype.toString\<close>: an integer of magnitude below \<open>10 ^ 21\<close> is written
  with all its digits.
\<close>

definition Number_toString :: "mongoose \<Rightarrow> jsnum \<Rightarrow> string" where
  "Number_toString lib n =
     (case n of
        NaN \<Rightarrow> ''NaN''
      | PosInf \<Rightarrow> ''Infinity''
      | NegInf \<Rightarrow> ''-Infinity''
      | Fin r \<Rightarrow>
          if of_int \<lfloor>r\<rfloor> = r \<and> \<bar>r\<bar> < 10 ^ 21
          then (if r < 0 then ''-'' @ decimal (nat (- \<lfloor>r\<rfloor>)) else decimal (nat \<lfloor>r\<rfloor>))
          else number_text lib r)"

text \<open>
  The cast to \<^verbatim>\<open>String\<close>: \<^verbatim>\<open>null\<close> and \<^verbatim>\<open>undefined\<close> stay, every other scalar
  becomes its \<^verbatim>\<open>toString()\<close>.
\<close>

fun cast_String :: "mongoose \<Rightarrow> jsval \<Rightarrow> jsval" where
  "cast_String lib JUndefined = JUndefined"
| "cast_String lib JNull = JNull"
| "cast_String lib (JBool b) = JStr (if b then ''true'' else ''false'')"
| "cast_String lib (JNum n) = JStr (Number_toString lib n)"
| "cast_String lib (JStr s) = JStr s"

text \<open>
  The cast to \<^verbatim>\<open>Boolean\<close>: five values convert to true, five to false,
  \<^verbatim>\<open>null\<close> and \<^verbatim>\<open>undefined\<close> stay, and the cast of any other value fails.
\<close>

definition cast_Boolean :: "jsval \<Rightarrow> jsval option" where
  "cast_Boolean v =
     (if v \<in> set [JBool True, JStr ''true'', JNum (Fin 1), JStr ''1'', JStr ''yes'']
      then Some (JBool True)
      else if v \<in> set [JBool False, JStr ''false'', JNum (Fin 0), JStr ''0'', JStr ''no'']
      then Some (JBool False)
      else if v = JUndefined \<or> v = JNull then Some v
      else None)"


text \<open>
  The validators: \<^verbatim>\<open>required\<close> on a string asks for a string that is not empty,
  \<^verbatim>\<open>required\<close> on another type for a value that is set, and \<^verbatim>\<open>enum\<close> for one of
  the listed strings when the value is set.
\<close>

definition required_string :: "jsval \<Rightarrow> bool" where
  "required_string v = (case v of JStr s \<Rightarrow> s \<noteq> [] | _ \<Rightarrow> False)"

definition required_value :: "jsval \<Rightarrow> bool" where
  "required_value v = (v \<noteq> JUndefined \<and> v \<noteq> JNull)"

definition in_enum :: "string list \<Rightarrow> jsval \<Rightarrow> bool" where
  "in_enum allowed v =
     (case v of JUndefined \<Rightarrow> True | JNull \<Rightarrow> True | JStr s \<Rightarrow> s \<in> set allowed | _ \<Rightarrow> False)"

text \<open>The paths a validator reports, for a path and the answer of its validator.\<close>

definition failing :: "string \<Rightarrow> bool \<Rightarrow> string list" where
  "failing path ok = (if ok then [] else [path])"

subsection \<open>The project schema\<close>

definition status_enum :: "string list" where
  "status_enum =
     [''Pending'', ''Process'', ''Start'', ''Backend Work'', ''Frontend Work'',
      ''Database Work'', ''Completed'']"

text \<open>The validators of \<^verbatim>\<open>ProjectSchema\<close>, run on the whole document at every save.\<close>

definition ProjectSchema_failures :: "project \<Rightarrow> string list" where
  "ProjectSchema_failures p =
     failing ''title'' (required_string (title p)) @
     failing ''description'' (required_string (description p)) @
     failing ''student'' (required_value (student p)) @
     failing ''submissionDate'' (required_value (submissionDate p)) @
     failing ''status'' (in_enum status_enum (status p))"


text \<open>
  The declared paths of \<^verbatim>\<open>invoiceDetails\<close> whose type is \<^verbatim>\<open>String\<close>, in the order of
  the schema; \<open>isSent\<close> is the one \<^verbatim>\<open>Boolean\<close>.
\<close>

definition invoice_paths :: "string list" where
  "invoice_paths =
     [''invoiceNo'', ''date'', ''companyName'', ''companyAddress'', ''title'', ''description'',
      ''frontend'', ''backend'', ''database'', ''amount'', ''paymentStatus'', ''paymentMethod'',
      ''signatory'']"

text \<open>
  The assignment of an object to \<^verbatim>\<open>invoiceDetails\<close>: the keys of the object that the
  schema declares are set, each value cast to the type of its path, and every other key
  is dropped. The result is the paths whose cast fails and the object that is stored.
\<close>

definition InvoiceSchema_set :: "mongoose \<Rightarrow> jsobj \<Rightarrow> string list \<times> jsobj" where
  "InvoiceSchema_set lib obj =
     (let strings =
            map (\<lambda>k. (k, cast_String lib (js_get obj k)))
              (filter (\<lambda>k. js_get obj k \<noteq> JUndefined) invoice_paths)
      in (case cast_Boolean (js_get obj ''isSent'') of
            None \<Rightarrow> ([''invoiceDetails.isSent''], strings)
          | Some b \<Rightarrow> ([], if b = JUndefined then strings else strings @ [(''isSent'', b)])))"

subsection \<open>The user schema\<close>

text \<open>The validators of \<^verbatim>\<open>UserSchema\<close>; the role is one of the two values by its type.\<close>

definition UserSchema_failures :: "'a user_scheme \<Rightarrow> string list" where
  "UserSchema_failures u =
     failing ''name'' (required_string (name u)) @
     failing ''username'' (required_string (username u)) @
     failing ''password'' (required_string (password u))"

section \<open>Responses\<close>

text \<open>
  \<^verbatim>\<open>.populate('assignedDeveloper', 'name')\<close> puts, in the place of the reference, the id
  and the name of the user it refers to, and \<^verbatim>\<open>null\<close> when no such user is stored; a
  reference that is not set stays so.
\<close>

datatype populated = NotSet | Missing | DeveloperName string jsval



text \<open>A student as the two student queries return it: the document without the password,
  and the populated reference.\<close>

record student_view =
  view_doc :: user
  view_developer :: populated


text \<open>The JSON bodies the handlers send.\<close>

datatype payload =
    Message string
  | UserSummary string jsval jsval role
  | AuthInfo string jsval jsval role string
  | UserDoc user
  | UserList "user list"
  | StudentList "student_view list"
  | StudentDetail student_view "project list"
  | Stats nat nat jsnum
  | ProjectDoc project
  | ProjectList "project list"
  | Uploaded string string

text \<open>
  What a request ends in: a response with its status code, an error thrown out of the
  handler (no response is written by it), or the error the upload filter hands to the
  framework.
\<close>

datatype outcome =
    Response nat payload
  | Uncaught js_error
  | FilterError string

section \<open>The user model's hook\<close>

text \<open>
  \<^verbatim>\<open>UserSchema.pre('save', ...)\<close>: when the password was modified, it is replaced by
  its bcrypt hash. The hash (with the salt drawn for the call, of the password as the
  schema casts it to a string) is the parameter \<open>bhash\<close>.
\<close>

definition pre_save :: "(jsval \<Rightarrow> string) \<Rightarrow> bool \<Rightarrow> user \<Rightarrow> user" where
  "pre_save bhash password_modified u =
     (if \<not> password_modified then u else u\<lparr>password := JStr (bhash (password u))\<rparr>)"

text \<open>
  \<^verbatim>\<open>User.create({name, username, password, role, assignedDeveloper})\<close>: a new document
  with the id the store generates (\<open>fresh\<close>), the schema's defaults for the four paths,
  saved through the hook.
\<close>

definition User_create ::
  "(jsval \<Rightarrow> string) \<Rightarrow> string \<Rightarrow> jsval \<Rightarrow> jsval \<Rightarrow> jsval \<Rightarrow> role \<Rightarrow> jsval \<Rightarrow> user" where
  "User_create bhash fresh n un pw r dev =
     pre_save bhash True
       \<lparr>uid = fresh, name = n, username = un, password = pw, role = r,
        documentPath = JStr [], pdfPath = JStr [], zipPath = JStr [], videoPath = JStr [],
        assignedDeveloper = dev\<rparr>"

section \<open>The student routes\<close>

text \<open>
  Each handler is a function of the store's fault, the store, the authenticated caller
  (\<^verbatim>\<open>req.user\<close>) where the handler reads it, the route parameter and the request body;
  it returns the outcome and the store after the request.
\<close>

subsection \<open>PUT /api/students/:id\<close>

text \<open>The assignments of the handler to the document it read, in their order.\<close>

definition assign_student_fields :: "jsobj \<Rightarrow> user \<Rightarrow> user" where
  "assign_student_fields body user =
     (let u1 = user\<lparr>name := js_or (js_get body ''name'') (name user)\<rparr>;
          u2 = u1\<lparr>username := js_or (js_get body ''username'') (username u1)\<rparr>;
          u3 = (if truthy (js_get body ''password'')
                then u2\<lparr>password := js_get body ''password''\<rparr> else u2);
          u4 = u3\<lparr>assignedDeveloper :=
                  js_or (js_get body ''assignedDeveloper'') (assignedDeveloper u3)\<rparr>;
          u5 = (if js_get body ''pdfPath'' \<noteq> JUndefined
                then u4\<lparr>pdfPath := js_get body ''pdfPath''\<rparr> else u4);
          u6 = (if js_get body ''zipPath'' \<noteq> JUndefined
                then u5\<lparr>zipPath := js_get body ''zipPath''\<rparr> else u5);
          u7 = (if js_get body ''videoPath'' \<noteq> JUndefined
                then u6\<lparr>videoPath := js_get body ''videoPath''\<rparr> else u6);
          u8 = (if js_get body ''documentPath'' \<noteq> JUndefined
                then u7\<lparr>documentPath := js_get body ''documentPath''\<rparr> else u7)
      in u8)"

text \<open>
  The handler. The password counts as modified for the hook when the value assigned
  differs from the one read.
\<close>

definition put_student ::
  "(jsval \<Rightarrow> string) \<Rightarrow> store_fault \<Rightarrow> db \<Rightarrow> string \<Rightarrow> jsobj \<Rightarrow> outcome \<times> db" where
  "put_student bhash fault d i body =
     (case fault of
        ReadRejects m \<Rightarrow> (Response 500 (Message m), d)
      | _ \<Rightarrow>
        (case User_findById d i of
           None \<Rightarrow> (Response 404 (Message ''User not found''), d)
         | Some user \<Rightarrow>
             (let user' = assign_student_fields body user
              in (case fault of
                    WriteRejects m \<Rightarrow> (Response 500 (Message m), d)
                  | _ \<Rightarrow>
                    (let updatedUser = pre_save bhash (password user' \<noteq> password user) user'
                     in (Response 200
                           (UserSummary (uid updatedUser) (name updatedUser)
                              (username updatedUser) (role updatedUser)),
                         User_save updatedUser d))))))"

subsection \<open>POST /api/students/:id/upload\<close>

text \<open>The file of the request, as the upload middleware describes it.\<close>

record upload_file =
  originalname :: string
  mimetype :: string

text \<open>
  \<^verbatim>\<open>fileFilter\<close>: true when the callback accepts the file
  (\<^verbatim>\<open>cb(null, true)\<close>), false when it is called with the error. The test of the mime type
  is computed and not used.
\<close>

definition fileFilter :: "upload_file \<Rightarrow> bool" where
  "fileFilter file =
     (let extname = filetypes_test (toLowerCase (path_extname (originalname file)));
          mimetype_matches = filetypes_test (mimetype file)
      in if extname then True else False)"

text \<open>
  The extension both the filter and the handler look at: that of the original name, in
  lower case.
\<close>

definition upload_ext :: "upload_file \<Rightarrow> string" where
  "upload_ext file = toLowerCase (path_extname (originalname file))"

text \<open>
  \<^verbatim>\<open>storage\<close>: the file is written to \<^verbatim>\<open>uploads/\<close> under the time of receipt
  (\<open>now\<close>, the digits of \<^verbatim>\<open>Date.now()\<close>), a dash and its original name.
\<close>

record stored_file =
  file_originalname :: string
  file_path :: string

definition storage :: "string \<Rightarrow> upload_file \<Rightarrow> stored_file" where
  "storage now file =
     \<lparr>file_originalname = originalname file,
      file_path = ''uploads/'' @ now @ ''-'' @ originalname file\<rparr>"

text \<open>
  \<^verbatim>\<open>upload.single('document')\<close>: with no file in the request the handler runs with
  \<^verbatim>\<open>req.file\<close> undefined; a file the filter refuses ends the request with the filter's
  error; an accepted file is stored and handed to the handler.
\<close>

definition upload_single :: "string \<Rightarrow> upload_file option \<Rightarrow> string + stored_file option" where
  "upload_single now file =
     (case file of
        None \<Rightarrow> Inr None
      | Some f \<Rightarrow>
          if fileFilter f then Inr (Some (storage now f))
          else Inl ''Error: Only ZIP, PDF, and Video files are allowed!'')"

text \<open>The assignment chain of the handler: which path of the user takes the stored path.\<close>

definition set_upload_path :: "string \<Rightarrow> string \<Rightarrow> 'a user_scheme \<Rightarrow> 'a user_scheme" where
  "set_upload_path ext path u =
     (if ext = ''.pdf'' then u\<lparr>pdfPath := JStr path\<rparr>
      else if ext = ''.zip'' then u\<lparr>zipPath := JStr path\<rparr>
      else if ext \<in> set [''.mp4'', ''.mov'', ''.avi'', ''.mkv''] then u\<lparr>videoPath := JStr path\<rparr>
      else u\<lparr>documentPath := JStr path\<rparr>)"

text \<open>
  The handler. Reading \<^verbatim>\<open>req.file.originalname\<close> without a file throws a TypeError
  inside the \<^verbatim>\<open>try\<close>, which answers 500 with the engine's message. The password is
  not modified here, so the hook of the model saves the document as it is.
\<close>

definition no_file_message :: string where
  "no_file_message = ''Cannot read properties of undefined (reading 'originalname')''"

definition upload_handler ::
  "store_fault \<Rightarrow> db \<Rightarrow> string \<Rightarrow> stored_file option \<Rightarrow> outcome \<times> db" where
  "upload_handler fault d i req_file =
     (case fault of
        ReadRejects m \<Rightarrow> (Response 500 (Message m), d)
      | _ \<Rightarrow>
        (case User_findById d i of
           None \<Rightarrow> (Response 404 (Message ''User not found''), d)
         | Some user \<Rightarrow>
             (case req_file of
                None \<Rightarrow> (Response 500 (Message no_file_message), d)
              | Some f \<Rightarrow>
                  (let ext = toLowerCase (path_extname (file_originalname f));
                       user' = set_upload_path ext (file_path f) user
                   in (case fault of
                         WriteRejects m \<Rightarrow> (Response 500 (Message m), d)
                       | _ \<Rightarrow>
                         (Response 200 (Uploaded ''File uploaded successfully'' (file_path f)),
                          User_save user' d))))))"

definition post_upload ::
  "string \<Rightarrow> store_fault \<Rightarrow> db \<Rightarrow> string \<Rightarrow> upload_file option \<Rightarrow> outcome \<times> db" where
  "post_upload now fault d i file =
     (case upload_single now file of
        Inl err \<Rightarrow> (FilterError err, d)
      | Inr req_file \<Rightarrow> upload_handler fault d i req_file)"

text \<open>
  The user schema has \<^verbatim>\<open>timestamps: true\<close>: the store keeps with every user the time
  of its creation and of its last update, and a save of a document that was modified
  sets \<open>updatedAt\<close> to the time of the save. A time is the string of its milliseconds.
\<close>

record stamped_user = user +
  createdAt :: jsval
  updatedAt :: jsval

definition save_timestamps :: "string \<Rightarrow> stamped_user \<Rightarrow> stamped_user \<Rightarrow> stamped_user" where
  "save_timestamps saved_at loaded u =
     (if u = loaded then u else u\<lparr>updatedAt := JStr saved_at\<rparr>)"

text \<open>
  The upload route on the users collection as the store holds it, with the timestamps:
  the same handler, and the save with the validators of the user schema and the
  timestamps. The password is not modified, so the hook changes nothing.
\<close>

definition upload_handler_timestamps ::
  "mongoose \<Rightarrow> store_fault \<Rightarrow> string \<Rightarrow> stamped_user list \<Rightarrow> string \<Rightarrow> stored_file option \<Rightarrow>
     outcome \<times> stamped_user list" where
  "upload_handler_timestamps lib fault saved_at us i req_file =
     (case fault of
        ReadRejects m \<Rightarrow> (Response 500 (Message m), us)
      | _ \<Rightarrow>
        (case find (\<lambda>u. uid u = i) us of
           None \<Rightarrow> (Response 404 (Message ''User not found''), us)
         | Some user \<Rightarrow>
             (case req_file of
                None \<Rightarrow> (Response 500 (Message no_file_message), us)
              | Some f \<Rightarrow>
                  (let ext = toLowerCase (path_extname (file_originalname f));
                       user' = set_upload_path ext (file_path f) user
                   in if UserSchema_failures user' \<noteq> []
                      then (Response 500
                              (Message (validation_message lib (UserSchema_failures user'))), us)
                      else
                        (case fault of
                           WriteRejects m \<Rightarrow> (Response 500 (Message m), us)
                         | _ \<Rightarrow>
                           (Response 200
                              (Uploaded ''File uploaded successfully'' (file_path f)),
                            replace_doc uid (save_timestamps saved_at user user') us))))))"

definition post_upload_timestamps ::
  "mongoose \<Rightarrow> string \<Rightarrow> store_fault \<Rightarrow> string \<Rightarrow> stamped_user list \<Rightarrow> string \<Rightarrow>
     upload_file option \<Rightarrow> outcome \<times> stamped_user list" where
  "post_upload_timestamps lib now fault saved_at us i file =
     (case upload_single now file of
        Inl err \<Rightarrow> (FilterError err, us)
      | Inr req_file \<Rightarrow> upload_handler_timestamps lib fault saved_at us i req_file)"

subsection \<open>POST /api/students\<close>

definition post_student ::
  "(jsval \<Rightarrow> string) \<Rightarrow> string \<Rightarrow> store_fault \<Rightarrow> db \<Rightarrow> user \<Rightarrow> jsobj \<Rightarrow> outcome \<times> db" where
  "post_student bhash fresh fault d req_user body =
     (let name_v = js_get body ''name'';
          username_v = js_get body ''username'';
          password_v = js_get body ''password''
      in (case fault of
            ReadRejects m \<Rightarrow> (Response 500 (Message m), d)
          | _ \<Rightarrow>
            (case find (\<lambda>u. username u = username_v) (users d) of
               Some userExists \<Rightarrow> (Response 400 (Message ''Student already exists''), d)
             | None \<Rightarrow>
                 (case fault of
                    WriteRejects m \<Rightarrow> (Response 500 (Message m), d)
                  | _ \<Rightarrow>
                    (let student_doc =
                           User_create bhash fresh name_v username_v password_v Student
                             (JStr (uid req_user))
                     in (Response 201 (UserDoc student_doc),
                         d\<lparr>users := users d @ [student_doc]\<rparr>))))))"

subsection \<open>GET /api/students\<close>


subsection \<open>GET /api/students/stats/global\<close>

text \<open>\<^verbatim>\<open>n || 0\<close> for a number \<open>n\<close>.\<close>

definition or_zero :: "jsnum \<Rightarrow> jsnum" where
  "or_zero n = (if truthy (JNum n) then n else Fin 0)"

definition get_stats_global ::
  "(string \<Rightarrow> jsnum) \<Rightarrow> store_fault \<Rightarrow> db \<Rightarrow> user \<Rightarrow> outcome \<times> db" where
  "get_stats_global s2n fault d req_user =
     (case fault of
        ReadRejects m \<Rightarrow> (Response 500 (Message m), d)
      | _ \<Rightarrow>
        (let myStudents =
               filter (\<lambda>u. role u = Student \<and> assignedDeveloper u = JStr (uid req_user))
                 (users d);
             studentIds = map uid myStudents;
             totalStudents = length studentIds;
             projs = filter (\<lambda>p. list_ex (\<lambda>i. student p = JStr i) studentIds) (projects d);
             totalProjects = length projs;
             totalRevenue =
               foldl (\<lambda>acc curr. js_add acc (or_zero (js_Number s2n (amount curr)))) (Fin 0) projs
         in (Response 200 (Stats totalStudents totalProjects totalRevenue), d)))"

subsection \<open>GET /api/students/:id\<close>


subsection \<open>PUT /api/students/project/:id\<close>




subsection \<open>PUT /api/students/project/:id/save-bill and send-bill\<close>

text \<open>\<^verbatim>\<open>project.invoiceDetails?.isSent\<close>.\<close>

definition invoice_isSent :: "project \<Rightarrow> jsval" where
  "invoice_isSent p =
     (case invoiceDetails p of None \<Rightarrow> JUndefined | Some details \<Rightarrow> js_get details ''isSent'')"

text \<open>
  The end of both handlers: the object is assigned to \<^verbatim>\<open>invoiceDetails\<close> through the
  schema and the project is saved; a failed cast or validator is answered with 500 and
  nothing is stored.
\<close>

definition save_invoice ::
  "mongoose \<Rightarrow> store_fault \<Rightarrow> db \<Rightarrow> project \<Rightarrow> jsobj \<Rightarrow> outcome \<times> db" where
  "save_invoice lib fault d p obj =
     (let (cast_failures, details) = InvoiceSchema_set lib obj;
          p' = p\<lparr>invoiceDetails := Some details\<rparr>;
          failures = cast_failures @ ProjectSchema_failures p'
      in if failures \<noteq> []
         then (Response 500 (Message (validation_message lib failures)), d)
         else
           (case fault of
              WriteRejects m \<Rightarrow> (Response 500 (Message m), d)
            | _ \<Rightarrow> (Response 200 (ProjectDoc p'), Project_save p' d)))"

definition put_save_bill ::
  "mongoose \<Rightarrow> store_fault \<Rightarrow> db \<Rightarrow> string \<Rightarrow> jsobj \<Rightarrow> outcome \<times> db" where
  "put_save_bill lib fault d i body =
     (case fault of
        ReadRejects m \<Rightarrow> (Response 500 (Message m), d)
      | _ \<Rightarrow>
        (case Project_findById d i of
           None \<Rightarrow> (Response 404 (Message ''Project not found''), d)
         | Some p \<Rightarrow>
             save_invoice lib fault d p
               (js_spread_set body ''isSent'' (js_or (invoice_isSent p) (JBool False)))))"

definition put_send_bill ::
  "mongoose \<Rightarrow> store_fault \<Rightarrow> db \<Rightarrow> string \<Rightarrow> jsobj \<Rightarrow> outcome \<times> db" where
  "put_send_bill lib fault d i body =
     (case fault of
        ReadRejects m \<Rightarrow> (Response 500 (Message m), d)
      | _ \<Rightarrow>
        (case Project_findById d i of
           None \<Rightarrow> (Response 404 (Message ''Project not found''), d)
         | Some p \<Rightarrow> save_invoice lib fault d p (js_spread_set body ''isSent'' (JBool True))))"

section \<open>The authentication routes\<close>

subsection \<open>POST /api/auth/register\<close>

text \<open>
  \<^verbatim>\<open>generateToken\<close>: the signed token for an id; the signature (with the secret and the
  validity of thirty days) is the parameter \<open>sign\<close>.
\<close>

definition generateToken :: "(string \<Rightarrow> string) \<Rightarrow> string \<Rightarrow> string" where
  "generateToken sign i = sign i"

text \<open>
  The length of the password is read first, before the \<^verbatim>\<open>try\<close>: an error thrown
  there leaves the handler.
\<close>

definition post_register ::
  "(string \<Rightarrow> jsnum) \<Rightarrow> (jsval \<Rightarrow> string) \<Rightarrow> (string \<Rightarrow> string) \<Rightarrow> string \<Rightarrow> store_fault \<Rightarrow>
     db \<Rightarrow> jsobj \<Rightarrow> outcome \<times> db" where
  "post_register s2n bhash sign fresh fault d body =
     (let name_v = js_get body ''name'';
          username_v = js_get body ''username'';
          password_v = js_get body ''password''
      in (case js_length password_v of
            Inl err \<Rightarrow> (Uncaught err, d)
          | Inr len \<Rightarrow>
              if js_less (js_Number s2n len) (Fin 8)
              then (Response 400 (Message ''Password must be at least 8 characters long''), d)
              else
                (case fault of
                   ReadRejects m \<Rightarrow> (Response 500 (Message m), d)
                 | _ \<Rightarrow>
                   (case find (\<lambda>u. username u = username_v) (users d) of
                      Some userExists \<Rightarrow> (Response 400 (Message ''User already exists''), d)
                    | None \<Rightarrow>
                        (case fault of
                           WriteRejects m \<Rightarrow> (Response 500 (Message m), d)
                         | _ \<Rightarrow>
                           (let user =
                                  User_create bhash fresh name_v username_v password_v
                                    Developer JUndefined
                            in (Response 201
                                  (AuthInfo (uid user) (name user) (username user) (role user)
                                     (generateToken sign (uid user))),
                                d\<lparr>users := users d @ [user]\<rparr>)))))))"

section \<open>Authentication and authorization\<close>







section \<open>Sequences of invoice requests\<close>

text \<open>
  A request to one of the two invoice routes, with the fault of the store during it, the
  id of the project and the body; a sequence of them runs from left to right, each on the
  store the one before left.
\<close>

datatype invoice_call =
    SaveDraft store_fault string jsobj
  | SendInvoice store_fault string jsobj

fun invoice_call_db :: "mongoose \<Rightarrow> db \<Rightarrow> invoice_call \<Rightarrow> db" where
  "invoice_call_db lib d (SaveDraft fault i body) = snd (put_save_bill lib fault d i body)"
| "invoice_call_db lib d (SendInvoice fault i body) = snd (put_send_bill lib fault d i body)"

definition run_invoice_calls :: "mongoose \<Rightarrow> db \<Rightarrow> invoice_call list \<Rightarrow> db" where
  "run_invoice_calls lib d cs = foldl (invoice_call_db lib) d cs"

text \<open>The stored project of that id has invoice details whose \<open>isSent\<close> is true.\<close>

definition isSent_true :: "db \<Rightarrow> string \<Rightarrow> bool" where
  "isSent_true d i =
     (case Project_findById d i of None \<Rightarrow> False | Some p \<Rightarrow> invoice_isSent p = JBool True)"

text \<open>
  The values the schema stores under \<open>isSent\<close>: a boolean, or none.
\<close>

definition stored_isSent :: "jsval \<Rightarrow> bool" where
  "stored_isSent v = (v \<in> set [JUndefined, JNull, JBool False, JBool True])"

section \<open>Stored projects\<close>



section \<open>Reachable stores\<close>

text \<open>
  The stores the public operations on users lead to from the empty store: the
  registration of a developer, the creation of a student and the update of a user by id,
  the last two called by a stored user whose role is developer. Every parameter of a
  request is arbitrary.
\<close>

inductive reachable :: "db \<Rightarrow> bool" where
  reach_empty: "reachable \<lparr>users = [], projects = []\<rparr>"
| reach_register:
    "reachable d \<Longrightarrow> reachable (snd (post_register s2n bhash sign fresh fault d body))"
| reach_create:
    "reachable d \<Longrightarrow> User_findById d c = Some req_user \<Longrightarrow> role req_user = Developer \<Longrightarrow>
     reachable (snd (post_student bhash fresh fault d req_user body))"
| reach_update:
    "reachable d \<Longrightarrow> User_findById d c = Some req_user \<Longrightarrow> role req_user = Developer \<Longrightarrow>
     reachable (snd (put_student bhash fault d i body))"

text \<open>
  The same, with the update restricted: its target is a student, or its body carries no
  truthy \<open>assignedDeveloper\<close>.
\<close>

inductive reachable_restricted :: "db \<Rightarrow> bool" where
  restr_empty: "reachable_restricted \<lparr>users = [], projects = []\<rparr>"
| restr_register:
    "reachable_restricted d \<Longrightarrow>
     reachable_restricted (snd (post_register s2n bhash sign fresh fault d body))"
| restr_create:
    "reachable_restricted d \<Longrightarrow> User_findById d c = Some req_user \<Longrightarrow>
     role req_user = Developer \<Longrightarrow>
     reachable_restricted (snd (post_student bhash fresh fault d req_user body))"
| restr_update:
    "reachable_restricted d \<Longrightarrow> User_findById d c = Some req_user \<Longrightarrow>
     role req_user = Developer \<Longrightarrow>
     (\<And>target. User_findById d i = Some target \<Longrightarrow>
        role target = Student \<or> \<not> truthy (js_get body ''assignedDeveloper'')) \<Longrightarrow>
     reachable_restricted (snd (put_student bhash fault d i body))"

text \<open>No stored developer has \<open>assignedDeveloper\<close> set.\<close>

definition developers_unassigned :: "db \<Rightarrow> bool" where
  "developers_unassigned d =
     list_all (\<lambda>u. role u = Developer \<longrightarrow> assignedDeveloper u = JUndefined) (users d)"

section \<open>Example data\<close>

text \<open>
  An instance of the library's parameters for the examples: every value is taken as a
  date, and the message of a validation error lists the failing paths.
\<close>

definition example_library :: mongoose where
  "example_library =
     \<lparr>number_text = (\<lambda>r. ''0.5''),
      cast_Date = (\<lambda>v. Some v),
      validation_message = (\<lambda>paths. ''Validation failed: '' @ concat paths)\<rparr>"

definition example_project :: project where
  "example_project =
     \<lparr>pid = ''p1'', title = JStr ''Shop'', description = JStr ''Web shop'',
      student = JStr ''s1'', submissionDate = JStr ''2026-01-31'', frontend = JStr ''React'',
      backend = JStr ''Node'', database = JStr ''MongoDB'', amount = JNum (Fin 100),
      status = JStr ''Pending'', invoiceDetails = None\<rparr>"

definition example_db :: db where
  "example_db = \<lparr>users = [], projects = [example_project]\<rparr>"

text \<open>
  Two developers, three students (two of the first developer, one of the second) and
  five projects; the amounts of the four projects of the first developer's students are
  100, the string abc, \<^verbatim>\<open>null\<close> and 50.
\<close>

definition example_user :: "string \<Rightarrow> string \<Rightarrow> role \<Rightarrow> jsval \<Rightarrow> user" where
  "example_user i un r dev =
     \<lparr>uid = i, name = JStr un, username = JStr un, password = JStr (''$2a$10$'' @ un),
      role = r, documentPath = JStr [], pdfPath = JStr [], zipPath = JStr [],
      videoPath = JStr [], assignedDeveloper = dev\<rparr>"

definition example_work :: "string \<Rightarrow> string \<Rightarrow> jsval \<Rightarrow> project" where
  "example_work i s a =
     \<lparr>pid = i, title = JStr ''Shop'', description = JStr ''Web shop'', student = JStr s,
      submissionDate = JStr ''2026-01-31'', frontend = JStr ''React'', backend = JStr ''Node'',
      database = JStr ''MongoDB'', amount = a, status = JStr ''Pending'',
      invoiceDetails = None\<rparr>"

definition example_store :: db where
  "example_store =
     \<lparr>users =
        [example_user ''d1'' ''dev1'' Developer JUndefined,
         example_user ''d2'' ''dev2'' Developer JUndefined,
         example_user ''s1'' ''stu1'' Student (JStr ''d1''),
         example_user ''s2'' ''stu2'' Student (JStr ''d1''),
         example_user ''s3'' ''stu3'' Student (JStr ''d2'')],
      projects =
        [example_work ''p1'' ''s1'' (JNum (Fin 100)),
         example_work ''p2'' ''s1'' (JStr ''abc''),
         example_work ''p3'' ''s2'' JNull,
         example_work ''p4'' ''s2'' (JNum (Fin 50)),
         example_work ''p5'' ''s3'' (JNum (Fin 999))]\<rparr>"

text \<open>
  The users collection with its timestamps: one student, created and last updated at the
  same time.
\<close>

definition example_account :: stamped_user where
  "example_account =
     \<lparr>uid = ''s1'', name = JStr ''stu1'', username = JStr ''stu1'',
      password = JStr ''$2a$10$stu1'', role = Student, documentPath = JStr [],
      pdfPath = JStr [], zipPath = JStr [], videoPath = JStr [],
      assignedDeveloper = JStr ''d1'', createdAt = JStr ''1700000000000'',
      updatedAt = JStr ''1700000000000''\<rparr>"

section \<open>Revenue\<close>

text \<open>
  The amount of a project coerced to a number, \<^verbatim>\<open>NaN\<close> (a string that is no number, a
  missing amount) counting as zero; the same as a rational when it is finite; and whether
  it is a whole number.
\<close>

definition coerced_amount :: "(string \<Rightarrow> jsnum) \<Rightarrow> project \<Rightarrow> jsnum" where
  "coerced_amount s2n p = (case js_Number s2n (amount p) of NaN \<Rightarrow> Fin 0 | n \<Rightarrow> n)"

definition amount_or_zero :: "(string \<Rightarrow> jsnum) \<Rightarrow> project \<Rightarrow> rat" where
  "amount_or_zero s2n p = (case js_Number s2n (amount p) of Fin r \<Rightarrow> r | _ \<Rightarrow> 0)"

definition whole_amount :: "(string \<Rightarrow> jsnum) \<Rightarrow> project \<Rightarrow> bool" where
  "whole_amount s2n p =
     (case coerced_amount s2n p of Fin r \<Rightarrow> of_int \<lfloor>r\<rfloor> = r | _ \<Rightarrow> False)"

text \<open>
  A store with one developer, one student and two projects, whose amounts are
  \<open>2 ^ 53\<close> and 1.
\<close>

definition large_amounts_store :: db where
  "large_amounts_store =
     \<lparr>users =
        [example_user ''d1'' ''dev1'' Developer JUndefined,
         example_user ''s1'' ''stu1'' Student (JStr ''d1'')],
      projects =
        [example_work ''p1'' ''s1'' (JNum (Fin 9007199254740992)),
         example_work ''p2'' ''s1'' (JNum (Fin 1))]\<rparr>"

text \<open>
  The store after a developer registered on the empty store; after that developer then
  sent an update of the own account with \<open>assignedDeveloper\<close>; and after the developer
  instead created a student and reassigned that student.
\<close>

definition registered_store :: db where
  "registered_store =
     snd (post_register (\<lambda>s. NaN) (\<lambda>v. ''$2a$10$hash'') (\<lambda>i. ''token'') ''d1'' NoFault
            \<lparr>users = [], projects = []\<rparr>
            [(''name'', JStr ''Dev''), (''username'', JStr ''dev''),
             (''password'', JStr ''long enough'')])"

definition registered_developer :: user where
  "registered_developer =
     \<lparr>uid = ''d1'', name = JStr ''Dev'', username = JStr ''dev'',
      password = JStr ''$2a$10$hash'', role = Developer, documentPath = JStr [],
      pdfPath = JStr [], zipPath = JStr [], videoPath = JStr [],
      assignedDeveloper = JUndefined\<rparr>"

definition self_assigned_store :: db where
  "self_assigned_store =
     snd (put_student (\<lambda>v. ''$2a$10$hash'') NoFault registered_store ''d1''
            [(''assignedDeveloper'', JStr ''d1'')])"

definition reassigned_store :: db where
  "reassigned_store =
     snd (put_student (\<lambda>v. ''$2a$10$hash'') NoFault
            (snd (post_student (\<lambda>v. ''$2a$10$hash'') ''s1'' NoFault registered_store
                    registered_developer
                    [(''name'', JStr ''Asha''), (''username'', JStr ''asha''),
                     (''password'', JStr ''correct horse'')]))
            ''s1'' [(''assignedDeveloper'', JStr ''d2'')])"

section \<open>Properties of the store and of objects\<close>

lemma js_get_spread_same: "js_get (js_spread_set obj k v) k = v"
  by (induction obj) (auto simp: js_get_def)

lemma js_get_spread_other: "k' \<noteq> k \<Longrightarrow> js_get (js_spread_set obj k v) k' = js_get obj k'"
  by (induction obj) (auto simp: js_get_def)

lemma find_key_eq: "find (\<lambda>x. key x = j) xs = Some x \<Longrightarrow> key x = j"
  by (induction xs) (auto split: if_splits)

lemma find_replace_doc:
  "find (\<lambda>x. key x = j) (replace_doc key y xs) =
     (if j = key y then map_option (\<lambda>_. y) (find (\<lambda>x. key x = j) xs)
      else find (\<lambda>x. key x = j) xs)"
  by (induction xs) auto

lemma Project_findById_save:
  "Project_findById (Project_save q d) j =
     (if j = pid q then map_option (\<lambda>_. q) (Project_findById d j) else Project_findById d j)"
  using find_replace_doc [of pid j q "projects d"]
  by (simp add: Project_findById_def Project_save_def)

lemma Project_findById_pid: "Project_findById d i = Some p \<Longrightarrow> pid p = i"
  unfolding Project_findById_def by (rule find_key_eq)

section \<open>Registration without a password\<close>

lemma short_password_check:
  "(case js_length v of
      Inl err \<Rightarrow> False
    | Inr len \<Rightarrow> js_less (js_Number s2n len) (Fin 8)) = (\<exists>s. v = JStr s \<and> length s < 8)"
  by (cases v) auto

text \<open>
  Claim C10. The registration handler reads the length of the password before any guard
  and outside its \<^verbatim>\<open>try\<close>: when the body has no password (and likewise when the
  password is \<^verbatim>\<open>null\<close>) a TypeError leaves the handler and no response is written,
  whatever the other inputs are, and the store is as before. The answer 400 with the
  message about eight characters is given exactly when the password is a string of fewer
  than eight characters, so only when a password is present.
\<close>

theorem register_password_length_unguarded:
  "(map_of body ''password'' = None \<longrightarrow>
      post_register s2n bhash sign fresh fault d body = (Uncaught TypeError, d)) \<and>
   (map_of body ''password'' = Some JNull \<longrightarrow>
      post_register s2n bhash sign fresh fault d body = (Uncaught TypeError, d)) \<and>
   ((\<exists>d'. post_register s2n bhash sign fresh fault d body =
           (Response 400 (Message ''Password must be at least 8 characters long''), d')) =
    (\<exists>s. map_of body ''password'' = Some (JStr s) \<and> length s < 8))"
proof (intro conjI impI)
  assume "map_of body ''password'' = None"
  then show "post_register s2n bhash sign fresh fault d body = (Uncaught TypeError, d)"
    by (simp add: post_register_def js_get_def)
next
  assume "map_of body ''password'' = Some JNull"
  then show "post_register s2n bhash sign fresh fault d body = (Uncaught TypeError, d)"
    by (simp add: post_register_def js_get_def)
next
  have g: "(\<exists>s. js_get body ''password'' = JStr s \<and> length s < 8) =
           (\<exists>s. map_of body ''password'' = Some (JStr s) \<and> length s < 8)"
    by (auto simp: js_get_def split: option.splits)
  have "(\<exists>d'. post_register s2n bhash sign fresh fault d body =
           (Response 400 (Message ''Password must be at least 8 characters long''), d')) =
        (case js_length (js_get body ''password'') of
           Inl err \<Rightarrow> False
         | Inr len \<Rightarrow> js_less (js_Number s2n len) (Fin 8))"
    by (auto simp: post_register_def Let_def split: sum.splits store_fault.splits option.splits)
  then show "(\<exists>d'. post_register s2n bhash sign fresh fault d body =
           (Response 400 (Message ''Password must be at least 8 characters long''), d')) =
    (\<exists>s. map_of body ''password'' = Some (JStr s) \<and> length s < 8)"
    by (simp add: short_password_check g)
qed

text \<open>
  The theorem at a body with a name and a username and no password, on the empty store.
\<close>

theorem register_password_length_unguarded_witness:
  "map_of [(''name'', JStr ''Dev''), (''username'', JStr ''dev'')] ''password'' = None \<and>
   post_register (\<lambda>s. NaN) (\<lambda>v. ''hash'') (\<lambda>i. ''token'') ''d1'' NoFault
     \<lparr>users = [], projects = []\<rparr> [(''name'', JStr ''Dev''), (''username'', JStr ''dev'')] =
     (Uncaught TypeError, \<lparr>users = [], projects = []\<rparr>)"
proof (intro conjI)
  show n: "map_of [(''name'', JStr ''Dev''), (''username'', JStr ''dev'')] ''password'' = None"
    by simp
  from register_password_length_unguarded
    [of "[(''name'', JStr ''Dev''), (''username'', JStr ''dev'')]" "\<lambda>s. NaN" "\<lambda>v. ''hash''"
        "\<lambda>i. ''token''" "''d1''" NoFault "\<lparr>users = [], projects = []\<rparr>",
     THEN conjunct1, THEN mp, OF n]
  show "post_register (\<lambda>s. NaN) (\<lambda>v. ''hash'') (\<lambda>i. ''token'') ''d1'' NoFault
     \<lparr>users = [], projects = []\<rparr> [(''name'', JStr ''Dev''), (''username'', JStr ''dev'')] =
     (Uncaught TypeError, \<lparr>users = [], projects = []\<rparr>)" .
qed

section \<open>Uploads\<close>



lemma uid_set_upload_path: "uid (set_upload_path ext path u) = uid u"
  by (simp add: set_upload_path_def)

lemma fileFilter_extension: "fileFilter file = filetypes_test (upload_ext file)"
  by (simp add: fileFilter_def Let_def upload_ext_def split: if_splits)

lemma post_upload_accepted:
  assumes "User_findById d i = Some u" and "fileFilter file"
  shows "post_upload now NoFault d i (Some file) =
     (Response 200 (Uploaded ''File uploaded successfully'' (file_path (storage now file))),
      User_save (set_upload_path (upload_ext file) (file_path (storage now file)) u) d)"
  using assms
  by (simp add: post_upload_def upload_single_def upload_handler_def Let_def storage_def
        upload_ext_def)

text \<open>
  Claim C8. The filter decides by the extension alone: changing the mime type never
  changes its answer. But the extensions it accepts are not exactly the six of the claim:
  \<open>report.pdfx\<close>, whose extension \<open>.pdfx\<close> is none of them, passes the filter, and the
  handler stores its path in \<open>documentPath\<close> of the student.
\<close>

theorem pdfx_upload_is_accepted:
  "fileFilter (file\<lparr>mimetype := m\<rparr>) = fileFilter file \<and>
   upload_ext \<lparr>originalname = ''report.pdfx'', mimetype = ''application/octet-stream''\<rparr> =
     ''.pdfx'' \<and>
   fileFilter \<lparr>originalname = ''report.pdfx'', mimetype = ''application/octet-stream''\<rparr> \<and>
   post_upload ''1767225600000'' NoFault example_store ''s1''
     (Some \<lparr>originalname = ''report.pdfx'', mimetype = ''application/octet-stream''\<rparr>) =
     (Response 200
        (Uploaded ''File uploaded successfully'' ''uploads/1767225600000-report.pdfx''),
      User_save
        ((example_user ''s1'' ''stu1'' Student (JStr ''d1''))
           \<lparr>documentPath := JStr ''uploads/1767225600000-report.pdfx''\<rparr>)
        example_store)"
proof (intro conjI)
  let ?file = "\<lparr>originalname = ''report.pdfx'', mimetype = ''application/octet-stream''\<rparr>"
  show "fileFilter (file\<lparr>mimetype := m\<rparr>) = fileFilter file"
    by (simp add: fileFilter_extension upload_ext_def)
  show e: "upload_ext ?file = ''.pdfx''"
    by (simp add: upload_ext_def path_extname_def last_portion_def toLowerCase_def
          lower_char_def)
  show a: "fileFilter ?file"
    by (simp add: fileFilter_extension e filetypes_test_def filetypes_def)
  have f: "User_findById example_store ''s1'' =
      Some (example_user ''s1'' ''stu1'' Student (JStr ''d1''))"
    by (simp add: User_findById_def example_store_def example_user_def)
  show "post_upload ''1767225600000'' NoFault example_store ''s1'' (Some ?file) =
     (Response 200
        (Uploaded ''File uploaded successfully'' ''uploads/1767225600000-report.pdfx''),
      User_save
        ((example_user ''s1'' ''stu1'' Student (JStr ''d1''))
           \<lparr>documentPath := JStr ''uploads/1767225600000-report.pdfx''\<rparr>)
        example_store)"
    using post_upload_accepted [OF f a, of "''1767225600000''"]
    by (simp add: e storage_def set_upload_path_def)
qed

section \<open>Listing and creating students\<close>






lemma post_student_created:
  assumes "find (\<lambda>u. username u = js_get body ''username'') (users d) = None"
  shows "post_student bhash fresh NoFault d dev body =
     (Response 201
        (UserDoc (User_create bhash fresh (js_get body ''name'') (js_get body ''username'')
           (js_get body ''password'') Student (JStr (uid dev)))),
      d\<lparr>users := users d @
         [User_create bhash fresh (js_get body ''name'') (js_get body ''username'')
            (js_get body ''password'') Student (JStr (uid dev))]\<rparr>)"
  using assms by (simp add: post_student_def Let_def)



section \<open>The routes by id\<close>


lemma assign_student_fields_kept:
  "uid (assign_student_fields body u) = uid u"
  "role (assign_student_fields body u) = role u"
  by (simp_all add: assign_student_fields_def Let_def)



lemma assign_student_fields_developer:
  "assignedDeveloper (assign_student_fields body u) =
     js_or (js_get body ''assignedDeveloper'') (assignedDeveloper u)"
  by (simp add: assign_student_fields_def Let_def)

lemma pre_save_kept:
  "uid (pre_save bhash m u) = uid u"
  "role (pre_save bhash m u) = role u"
  "name (pre_save bhash m u) = name u"
  "username (pre_save bhash m u) = username u"
  "assignedDeveloper (pre_save bhash m u) = assignedDeveloper u"
  by (simp_all add: pre_save_def)




section \<open>The password in responses\<close>

text \<open>
  Claim C6. The creation route answers with the whole document it stored
  (\<^verbatim>\<open>res.status(201).json(student)\<close>), and that document carries the password field,
  which holds the hash the hook computed. A student created in the example store by the
  first developer is answered with its hash.
\<close>

theorem post_student_answers_with_password_hash:
  "post_student bhash ''s9'' NoFault example_store
     (example_user ''d1'' ''dev1'' Developer JUndefined)
     [(''name'', JStr ''Asha''), (''username'', JStr ''asha''),
      (''password'', JStr ''correct horse'')] =
     (Response 201
        (UserDoc
           \<lparr>uid = ''s9'', name = JStr ''Asha'', username = JStr ''asha'',
            password = JStr (bhash (JStr ''correct horse'')), role = Student,
            documentPath = JStr [], pdfPath = JStr [], zipPath = JStr [],
            videoPath = JStr [], assignedDeveloper = JStr ''d1''\<rparr>),
      example_store\<lparr>users := users example_store @
        [\<lparr>uid = ''s9'', name = JStr ''Asha'', username = JStr ''asha'',
          password = JStr (bhash (JStr ''correct horse'')), role = Student,
          documentPath = JStr [], pdfPath = JStr [], zipPath = JStr [],
          videoPath = JStr [], assignedDeveloper = JStr ''d1''\<rparr>]\<rparr>)"
proof -
  let ?body = "[(''name'', JStr ''Asha''), (''username'', JStr ''asha''),
      (''password'', JStr ''correct horse'')]"
  have free: "find (\<lambda>u. username u = js_get ?body ''username'') (users example_store) = None"
    by (simp add: js_get_def example_store_def example_user_def)
  have c: "User_create bhash ''s9'' (js_get ?body ''name'') (js_get ?body ''username'')
             (js_get ?body ''password'') Student
             (JStr (uid (example_user ''d1'' ''dev1'' Developer JUndefined))) =
           \<lparr>uid = ''s9'', name = JStr ''Asha'', username = JStr ''asha'',
            password = JStr (bhash (JStr ''correct horse'')), role = Student,
            documentPath = JStr [], pdfPath = JStr [], zipPath = JStr [],
            videoPath = JStr [], assignedDeveloper = JStr ''d1''\<rparr>"
    by (simp add: User_create_def pre_save_def js_get_def example_user_def)
  from post_student_created [OF free, of bhash "''s9''"
      "example_user ''d1'' ''dev1'' Developer JUndefined"]
  show ?thesis by (simp only: c)
qed

section \<open>Developers and the reference to a developer\<close>

lemma list_all_replace_doc:
  "list_all P xs \<Longrightarrow> P y \<Longrightarrow> list_all P (replace_doc key y xs)"
  by (induction xs) auto

lemma User_findById_in_store: "User_findById d i = Some u \<Longrightarrow> u \<in> set (users d)"
  by (auto simp: User_findById_def find_Some_iff)

lemma register_keeps_unassigned:
  "developers_unassigned d \<Longrightarrow>
   developers_unassigned (snd (post_register s2n bhash sign fresh fault d body))"
  by (auto simp: post_register_def Let_def developers_unassigned_def User_create_def
        pre_save_def split: sum.splits store_fault.splits option.splits)

lemma create_keeps_unassigned:
  "developers_unassigned d \<Longrightarrow>
   developers_unassigned (snd (post_student bhash fresh fault d req_user body))"
  by (auto simp: post_student_def Let_def developers_unassigned_def User_create_def
        pre_save_def split: store_fault.splits option.splits)

lemma update_keeps_unassigned:
  assumes inv: "developers_unassigned d"
    and target: "\<And>target. User_findById d i = Some target \<Longrightarrow>
        role target = Student \<or> \<not> truthy (js_get body ''assignedDeveloper'')"
  shows "developers_unassigned (snd (put_student bhash fault d i body))"
proof (cases "User_findById d i")
  case None
  with inv show ?thesis
    by (simp add: put_student_def split: store_fault.splits)
next
  case (Some s)
  let ?u = "pre_save bhash (password (assign_student_fields body s) \<noteq> password s)
              (assign_student_fields body s)"
  from Some have "s \<in> set (users d)" by (rule User_findById_in_store)
  with inv have old: "role s = Developer \<longrightarrow> assignedDeveloper s = JUndefined"
    by (simp add: developers_unassigned_def list_all_iff)
  from target [OF Some] old
  have new: "role ?u = Developer \<longrightarrow> assignedDeveloper ?u = JUndefined"
    by (auto simp: pre_save_kept assign_student_fields_kept assign_student_fields_developer
          js_or_def)
  from inv new have "developers_unassigned (User_save ?u d)"
    by (simp add: developers_unassigned_def User_save_def list_all_replace_doc)
  with inv Some show ?thesis
    by (simp add: put_student_def Let_def split: store_fault.splits)
qed

text \<open>
  Claim C7, as amended. In every store reached from the empty store by registrations of
  developers, creations of students and updates by id whose target is a student or whose
  body carries no truthy \<open>assignedDeveloper\<close>, no developer has \<open>assignedDeveloper\<close>
  set.
\<close>

theorem developers_stay_unassigned:
  "reachable_restricted d \<Longrightarrow> developers_unassigned d"
proof (induction rule: reachable_restricted.induct)
  case restr_empty
  show ?case by (simp add: developers_unassigned_def)
next
  case (restr_register d s2n bhash sign fresh fault body)
  then show ?case by (simp add: register_keeps_unassigned)
next
  case (restr_create d c req_user bhash fresh fault body)
  then show ?case by (simp add: create_keeps_unassigned)
next
  case (restr_update d c req_user i body bhash fault)
  from restr_update.IH restr_update.hyps(4) show ?case
    by (rule update_keeps_unassigned)
qed

lemma registered_store_eq:
  "registered_store = \<lparr>users = [registered_developer], projects = []\<rparr>"
  by (simp add: registered_store_def registered_developer_def post_register_def Let_def
        js_get_def User_create_def pre_save_def)

lemma registered_developer_found:
  "User_findById registered_store ''d1'' = Some registered_developer"
  by (simp add: registered_store_eq User_findById_def registered_developer_def)

text \<open>
  The theorem at the store in which a registered developer created a student and then
  assigned that student to another developer.
\<close>

theorem developers_stay_unassigned_witness:
  "reachable_restricted reassigned_store \<and> developers_unassigned reassigned_store"
proof -
  let ?created = "snd (post_student (\<lambda>v. ''$2a$10$hash'') ''s1'' NoFault registered_store
                    registered_developer
                    [(''name'', JStr ''Asha''), (''username'', JStr ''asha''),
                     (''password'', JStr ''correct horse'')])"
  have dev: "role registered_developer = Developer"
    by (simp add: registered_developer_def)
  have r1: "reachable_restricted registered_store"
    unfolding registered_store_def by (rule restr_register [OF restr_empty])
  have r2: "reachable_restricted ?created"
    by (rule restr_create [OF r1 registered_developer_found dev])
  have f2: "User_findById ?created ''d1'' = Some registered_developer"
    by (simp add: post_student_def Let_def js_get_def registered_store_eq User_findById_def
          registered_developer_def)
  have t: "\<And>target. User_findById ?created ''s1'' = Some target \<Longrightarrow>
        role target = Student \<or> \<not> truthy (js_get [(''assignedDeveloper'', JStr ''d2'')]
          ''assignedDeveloper'')"
    by (auto simp: post_student_def Let_def js_get_def registered_store_eq User_findById_def
          registered_developer_def User_create_def pre_save_def)
  have r3: "reachable_restricted reassigned_store"
    unfolding reassigned_store_def by (rule restr_update [OF r2 f2 dev t])
  from r3 developers_stay_unassigned [OF r3] show ?thesis by (rule conjI)
qed

text \<open>
  Claim C7, as stated, fails: the update route does not look at the role of its target.
  A registered developer who sends an update of the own account with a truthy
  \<open>assignedDeveloper\<close> is stored with it.
\<close>

theorem developer_assigned_counterexample:
  "reachable self_assigned_store \<and> \<not> developers_unassigned self_assigned_store"
proof
  have dev: "role registered_developer = Developer"
    by (simp add: registered_developer_def)
  have r1: "reachable registered_store"
    unfolding registered_store_def by (rule reach_register [OF reach_empty])
  show "reachable self_assigned_store"
    unfolding self_assigned_store_def
    by (rule reach_update [OF r1 registered_developer_found dev])
  show "\<not> developers_unassigned self_assigned_store"
    by (simp add: self_assigned_store_def put_student_def Let_def User_findById_def
          assign_student_fields_def js_get_def js_or_def pre_save_def User_save_def
          registered_store_eq registered_developer_def developers_unassigned_def)
qed

section \<open>Dashboard statistics\<close>

lemma round_half_even_of_int: "round_half_even (of_int m) = m"
  by (simp add: round_half_even_def)

lemma round_double_pos_int:
  assumes "0 < n" and "n \<le> 2 ^ 53"
  shows "round_double (of_int n) = Fin (of_int n)"
proof -
  let ?L = "bitlen n"
  from bitlen_bounds [OF assms(1)]
  have lo: "2 ^ nat (?L - 1) \<le> n" and hi: "n < 2 ^ nat ?L" by simp_all
  from assms(1) have L1: "1 \<le> ?L"
    by (metis bitlen_eq_zero_iff bitlen_nonneg int_one_le_iff_zero_less not_le
          order.not_eq_order_implies_strict)
  have L54: "?L \<le> 54"
  proof (rule ccontr)
    assume "\<not> ?L \<le> 54"
    then have "(2::int) ^ 54 \<le> 2 ^ nat (?L - 1)"
      by (intro power_increasing) auto
    with lo assms(2) show False by simp
  qed
  have il: "ilog2 (of_int n) = ?L - 1"
    using assms(1) by (simp add: ilog2_def)
  have mx: "max (?L - 1) (- 1022) = ?L - 1" using L1 by simp
  have small: "(of_int n :: rat) < pow2 1024"
  proof -
    have "n < 2 ^ 1024" using assms(2) by (rule order_le_less_trans) simp
    then have "(of_int n :: rat) < of_int (2 ^ 1024)" by (simp only: of_int_less_iff)
    then show ?thesis by (simp add: pow2_def)
  qed
  have ee: "?L - 1 - 52 = ?L - 53" by simp
  have r: "of_int (round_half_even (of_int n / pow2 (?L - 53))) * pow2 (?L - 53) =
           (of_int n :: rat)"
  proof (cases "?L \<le> 53")
    case True
    then have q: "pow2 (?L - 53) = 1 / 2 ^ nat (53 - ?L)"
      by (auto simp: pow2_def)
    have "of_int n / pow2 (?L - 53) = (of_int (n * 2 ^ nat (53 - ?L)) :: rat)"
      by (simp add: q)
    then show ?thesis
      by (simp only: round_half_even_of_int) (simp add: q)
  next
    case False
    with L54 have L: "?L = 54" by simp
    with lo assms(2) have n: "n = 2 ^ 53" by simp
    have q: "pow2 (?L - 53) = 2" by (simp add: L pow2_def)
    have "of_int n / (2::rat) = of_int (2 ^ 52)" by (simp add: n)
    then show ?thesis
      by (simp only: q round_half_even_of_int)
  qed
  show ?thesis
    using assms(1) small
    by (simp add: round_double_def Let_def il mx ee r)
qed

lemma round_double_int:
  assumes "\<bar>n\<bar> \<le> 2 ^ 53"
  shows "round_double (of_int n) = Fin (of_int n)"
proof (cases "n = 0")
  case True
  then show ?thesis by (simp add: round_double_def)
next
  case False
  show ?thesis
  proof (cases "0 < n")
    case True
    with assms show ?thesis by (simp add: round_double_pos_int)
  next
    case neg: False
    with False have p: "0 < - n" by simp
    from assms have b: "- n \<le> 2 ^ 53" by simp
    from round_double_pos_int [OF p b]
    have "round_double (of_int (- n)) = Fin (of_int (- n))" .
    with p show ?thesis
      by (simp add: round_double_def Let_def split: if_splits)
  qed
qed

lemma or_zero_coerced: "or_zero (js_Number s2n (amount p)) = coerced_amount s2n p"
  by (cases "js_Number s2n (amount p)") (simp_all add: or_zero_def coerced_amount_def)

lemma whole_amount_int:
  assumes "whole_amount s2n p"
  shows "coerced_amount s2n p = Fin (of_int \<lfloor>amount_or_zero s2n p\<rfloor>) \<and>
         amount_or_zero s2n p = of_int \<lfloor>amount_or_zero s2n p\<rfloor>"
proof (cases "js_Number s2n (amount p)")
  case (Fin r)
  with assms have "rat_of_int \<lfloor>r\<rfloor> = r"
    by (simp add: whole_amount_def coerced_amount_def del: of_int_floor_cancel)
  with Fin show ?thesis
    by (simp add: coerced_amount_def amount_or_zero_def del: of_int_floor_cancel)
next
  case NaN
  then show ?thesis
    by (simp add: coerced_amount_def amount_or_zero_def)
next
  case PosInf
  with assms show ?thesis
    by (simp add: whole_amount_def coerced_amount_def)
next
  case NegInf
  with assms show ?thesis
    by (simp add: whole_amount_def coerced_amount_def)
qed

lemma exact_fold:
  assumes "\<forall>p\<in>set ps. whole_amount s2n p"
    and "\<bar>of_int s\<bar> + (\<Sum>p\<leftarrow>ps. \<bar>amount_or_zero s2n p\<bar>) \<le> (2::rat) ^ 53"
  shows "foldl (\<lambda>acc p. js_add acc (coerced_amount s2n p)) (Fin (of_int s)) ps =
         Fin (of_int s + (\<Sum>p\<leftarrow>ps. amount_or_zero s2n p))"
  using assms
proof (induction ps arbitrary: s)
  case Nil
  then show ?case by simp
next
  case (Cons p ps)
  let ?k = "\<lfloor>amount_or_zero s2n p\<rfloor>"
  from Cons.prems(1) have w: "whole_amount s2n p" by simp
  from whole_amount_int [OF w]
  have c: "coerced_amount s2n p = Fin (of_int ?k)" and a: "amount_or_zero s2n p = of_int ?k"
    by simp_all
  have rest: "0 \<le> (\<Sum>p\<leftarrow>ps. \<bar>amount_or_zero s2n p\<bar>)"
    by (rule sum_list_nonneg) auto
  from Cons.prems(2) have b: "\<bar>of_int s\<bar> + \<bar>of_int ?k\<bar> +
      (\<Sum>p\<leftarrow>ps. \<bar>amount_or_zero s2n p\<bar>) \<le> (2::rat) ^ 53"
    using a by simp
  have "\<bar>(of_int (s + ?k) :: rat)\<bar> \<le> \<bar>of_int s\<bar> + \<bar>of_int ?k\<bar>"
    by simp
  with b rest have sk: "\<bar>(of_int (s + ?k) :: rat)\<bar> \<le> 2 ^ 53"
    and nx: "\<bar>(of_int (s + ?k) :: rat)\<bar> + (\<Sum>p\<leftarrow>ps. \<bar>amount_or_zero s2n p\<bar>) \<le> 2 ^ 53"
    by linarith+
  from sk have "\<bar>s + ?k\<bar> \<le> 2 ^ 53"
    by (metis of_int_abs of_int_le_iff of_int_numeral of_int_power)
  then have r: "round_double (of_int (s + ?k)) = Fin (of_int (s + ?k))"
    by (rule round_double_int)
  have step: "js_add (Fin (of_int s)) (coerced_amount s2n p) = Fin (of_int (s + ?k))"
    using r by (simp add: c)
  from Cons.prems(1) have all: "\<forall>p\<in>set ps. whole_amount s2n p" by simp
  from Cons.IH [OF all nx]
  have "foldl (\<lambda>acc p. js_add acc (coerced_amount s2n p)) (Fin (of_int (s + ?k))) ps =
        Fin (of_int (s + ?k) + (\<Sum>p\<leftarrow>ps. amount_or_zero s2n p))" .
  then show ?case
    using a by (simp add: step add.assoc)
qed

lemma list_ex_student_ids:
  "list_ex (\<lambda>i. s = JStr i) (map uid us) = (\<exists>u\<in>set us. s = JStr (uid u))"
  by (induction us) auto

text \<open>
  Claim C5, as amended. For a caller \<open>dev\<close>, the statistics route answers with the
  number of the students assigned to \<open>dev\<close>, the number of the projects of those
  students and, as the revenue, the sum of the amounts of those projects coerced to
  numbers (\<^verbatim>\<open>NaN\<close> counting zero), added as doubles from zero in the order of the
  store. That revenue is the exact sum whenever the coerced amounts are whole numbers
  whose absolute values add up to at most \<open>2 ^ 53\<close>.
\<close>

theorem stats_global_totals:
  "get_stats_global s2n NoFault d dev =
     (Response 200
        (Stats
           (length (filter (\<lambda>u. role u = Student \<and> assignedDeveloper u = JStr (uid dev))
              (users d)))
           (length (filter (\<lambda>p. \<exists>u\<in>set (users d). role u = Student \<and>
              assignedDeveloper u = JStr (uid dev) \<and> student p = JStr (uid u)) (projects d)))
           (foldl (\<lambda>acc p. js_add acc (coerced_amount s2n p)) (Fin 0)
              (filter (\<lambda>p. \<exists>u\<in>set (users d). role u = Student \<and>
                 assignedDeveloper u = JStr (uid dev) \<and> student p = JStr (uid u))
                 (projects d)))),
      d) \<and>
   ((\<forall>p\<in>set (filter (\<lambda>p. \<exists>u\<in>set (users d). role u = Student \<and>
          assignedDeveloper u = JStr (uid dev) \<and> student p = JStr (uid u)) (projects d)).
        whole_amount s2n p) \<and>
    (\<Sum>p\<leftarrow>filter (\<lambda>p. \<exists>u\<in>set (users d). role u = Student \<and>
          assignedDeveloper u = JStr (uid dev) \<and> student p = JStr (uid u)) (projects d).
          \<bar>amount_or_zero s2n p\<bar>) \<le> 2 ^ 53 \<longrightarrow>
    foldl (\<lambda>acc p. js_add acc (coerced_amount s2n p)) (Fin 0)
      (filter (\<lambda>p. \<exists>u\<in>set (users d). role u = Student \<and>
         assignedDeveloper u = JStr (uid dev) \<and> student p = JStr (uid u)) (projects d)) =
    Fin (\<Sum>p\<leftarrow>filter (\<lambda>p. \<exists>u\<in>set (users d). role u = Student \<and>
          assignedDeveloper u = JStr (uid dev) \<and> student p = JStr (uid u)) (projects d).
          amount_or_zero s2n p))"
proof (intro conjI impI)
  let ?mine = "\<lambda>u. role u = Student \<and> assignedDeveloper u = JStr (uid dev)"
  let ?of_mine = "\<lambda>p. \<exists>u\<in>set (users d). role u = Student \<and>
      assignedDeveloper u = JStr (uid dev) \<and> student p = JStr (uid u)"
  have sel: "(\<lambda>p. list_ex (\<lambda>i. student p = JStr i) (map uid (filter ?mine (users d)))) = ?of_mine"
    by (auto simp: list_ex_student_ids)
  show "get_stats_global s2n NoFault d dev =
     (Response 200
        (Stats (length (filter ?mine (users d))) (length (filter ?of_mine (projects d)))
           (foldl (\<lambda>acc p. js_add acc (coerced_amount s2n p)) (Fin 0)
              (filter ?of_mine (projects d)))),
      d)"
    by (simp add: get_stats_global_def Let_def sel or_zero_coerced)
next
  let ?of_mine = "\<lambda>p. \<exists>u\<in>set (users d). role u = Student \<and>
      assignedDeveloper u = JStr (uid dev) \<and> student p = JStr (uid u)"
  assume h: "(\<forall>p\<in>set (filter ?of_mine (projects d)). whole_amount s2n p) \<and>
    (\<Sum>p\<leftarrow>filter ?of_mine (projects d). \<bar>amount_or_zero s2n p\<bar>) \<le> 2 ^ 53"
  then have w: "\<forall>p\<in>set (filter ?of_mine (projects d)). whole_amount s2n p"
    and b: "\<bar>of_int 0\<bar> + (\<Sum>p\<leftarrow>filter ?of_mine (projects d). \<bar>amount_or_zero s2n p\<bar>) \<le>
            (2::rat) ^ 53"
    by simp_all
  from exact_fold [OF w b]
  show "foldl (\<lambda>acc p. js_add acc (coerced_amount s2n p)) (Fin 0)
      (filter ?of_mine (projects d)) =
    Fin (\<Sum>p\<leftarrow>filter ?of_mine (projects d). amount_or_zero s2n p)"
    by simp
qed

theorem stats_global_totals_witness:
  "get_stats_global (\<lambda>s. NaN) NoFault example_store
     (example_user ''d1'' ''dev1'' Developer JUndefined) =
     (Response 200 (Stats 2 4 (Fin 150)), example_store)"
proof -
  let ?dev = "example_user ''d1'' ''dev1'' Developer JUndefined"
  let ?mine = "\<lambda>u. role u = Student \<and> assignedDeveloper u = JStr (uid ?dev)"
  let ?of_mine = "\<lambda>p. \<exists>u\<in>set (users example_store). role u = Student \<and>
      assignedDeveloper u = JStr (uid ?dev) \<and> student p = JStr (uid u)"
  have s: "length (filter ?mine (users example_store)) = 2"
    by (simp add: example_store_def example_user_def)
  have f: "filter ?of_mine (projects example_store) =
      [example_work ''p1'' ''s1'' (JNum (Fin 100)), example_work ''p2'' ''s1'' (JStr ''abc''),
       example_work ''p3'' ''s2'' JNull, example_work ''p4'' ''s2'' (JNum (Fin 50))]"
    by (simp add: example_store_def example_work_def example_user_def)
  have h: "(\<forall>p\<in>set (filter ?of_mine (projects example_store)). whole_amount (\<lambda>s. NaN) p) \<and>
      (\<Sum>p\<leftarrow>filter ?of_mine (projects example_store). \<bar>amount_or_zero (\<lambda>s. NaN) p\<bar>) \<le> 2 ^ 53"
    unfolding f
    by (simp add: example_work_def whole_amount_def coerced_amount_def amount_or_zero_def)
  have r: "(\<Sum>p\<leftarrow>[example_work ''p1'' ''s1'' (JNum (Fin 100)),
                example_work ''p2'' ''s1'' (JStr ''abc''),
                example_work ''p3'' ''s2'' JNull, example_work ''p4'' ''s2'' (JNum (Fin 50))].
             amount_or_zero (\<lambda>s. NaN) p) = 150"
    by (simp add: example_work_def amount_or_zero_def)
  note t = stats_global_totals [of "\<lambda>s. NaN" example_store ?dev]
  from t [THEN conjunct1] t [THEN conjunct2, THEN mp, OF h]
  show ?thesis by (simp only: s f r list.size length_Cons) simp
qed

lemma round_double_above_2_53: "round_double 9007199254740993 = Fin 9007199254740992"
  by code_simp

lemma round_double_2_53: "round_double 9007199254740992 = Fin 9007199254740992"
  using round_double_int [of 9007199254740992] by simp

text \<open>
  Claim C5 as stated, with the revenue the sum of the amounts, fails on a student of the
  caller with two projects of amounts \<open>2 ^ 53\<close> and 1: their sum is
  9007199254740993, which no double represents, and the route answers with a revenue of
  9007199254740992.
\<close>

theorem stats_revenue_rounded_counterexample:
  "get_stats_global (\<lambda>s. NaN) NoFault large_amounts_store
     (example_user ''d1'' ''dev1'' Developer JUndefined) =
     (Response 200 (Stats 1 2 (Fin 9007199254740992)), large_amounts_store) \<and>
   (\<Sum>p\<leftarrow>projects large_amounts_store. amount_or_zero (\<lambda>s. NaN) p) = 9007199254740993"
  by (simp add: get_stats_global_def large_amounts_store_def example_user_def example_work_def
        amount_or_zero_def or_zero_def Let_def round_double_above_2_53 round_double_2_53)

section \<open>The invoice flag\<close>

lemma map_of_keys: "map_of (map (\<lambda>k. (k, f k)) ks) k = (if k \<in> set ks then Some (f k) else None)"
  by (induction ks) auto

lemma js_get_cast_paths:
  "js_get (map (\<lambda>k. (k, cast_String lib (js_get obj k)))
             (filter (\<lambda>k. js_get obj k \<noteq> JUndefined) ks)) k =
     (if k \<in> set ks then cast_String lib (js_get obj k) else JUndefined)"
  by (simp add: js_get_def map_of_keys)

lemma js_get_append_one:
  "js_get (xs @ [(k', b)]) k =
     (case map_of xs k of Some v \<Rightarrow> v | None \<Rightarrow> if k = k' then b else JUndefined)"
  by (simp add: js_get_def map_add_def split: option.splits)

lemma isSent_not_invoice_path: "''isSent'' \<notin> set invoice_paths"
  by (simp add: invoice_paths_def)

lemma InvoiceSchema_set_passes:
  assumes "cast_Boolean (js_get obj ''isSent'') = Some b"
  shows "fst (InvoiceSchema_set lib obj) = []"
  using assms by (simp add: InvoiceSchema_set_def Let_def)

lemma InvoiceSchema_set_get:
  assumes "cast_Boolean (js_get obj ''isSent'') = Some b"
  shows "js_get (snd (InvoiceSchema_set lib obj)) k =
     (if k \<in> set invoice_paths then cast_String lib (js_get obj k)
      else if k = ''isSent'' then b else JUndefined)"
proof (cases "b = JUndefined")
  case True
  with assms show ?thesis
    by (simp add: InvoiceSchema_set_def Let_def js_get_cast_paths)
next
  case False
  have "js_get (map (\<lambda>k. (k, cast_String lib (js_get obj k)))
             (filter (\<lambda>k. js_get obj k \<noteq> JUndefined) invoice_paths) @ [(''isSent'', b)]) k =
     (if k \<in> set invoice_paths then cast_String lib (js_get obj k)
      else if k = ''isSent'' then b else JUndefined)"
    using js_get_cast_paths [of lib obj invoice_paths k]
    using isSent_not_invoice_path
    by (auto simp add: js_get_append_one js_get_def map_of_keys split: option.splits)
  with assms False show ?thesis
    by (simp add: InvoiceSchema_set_def Let_def)
qed

lemma ProjectSchema_failures_invoice:
  "ProjectSchema_failures (p\<lparr>invoiceDetails := x\<rparr>) = ProjectSchema_failures p"
  by (simp add: ProjectSchema_failures_def)

lemma save_invoice_stored:
  assumes c: "cast_Boolean (js_get obj ''isSent'') = Some b"
    and v: "ProjectSchema_failures p = []"
  shows "save_invoice lib NoFault d p obj =
     (Response 200 (ProjectDoc (p\<lparr>invoiceDetails := Some (snd (InvoiceSchema_set lib obj))\<rparr>)),
      Project_save (p\<lparr>invoiceDetails := Some (snd (InvoiceSchema_set lib obj))\<rparr>) d)"
  using InvoiceSchema_set_passes [OF c, of lib] v
  by (simp add: save_invoice_def Let_def ProjectSchema_failures_invoice split_beta)

lemma save_invoice_keeps_isSent:
  assumes f: "Project_findById d i = Some p"
    and s: "isSent_true d j"
    and t: "j = i \<Longrightarrow> js_get obj ''isSent'' = JBool True"
  shows "isSent_true (snd (save_invoice lib fault d p obj)) j"
proof -
  from f have pi: "pid p = i" by (rule Project_findById_pid)
  let ?q = "p\<lparr>invoiceDetails := Some (snd (InvoiceSchema_set lib obj))\<rparr>"
  have stored: "isSent_true (Project_save ?q d) j"
  proof (cases "j = i")
    case True
    from t [OF True] have c: "cast_Boolean (js_get obj ''isSent'') = Some (JBool True)"
      by (simp add: cast_Boolean_def)
    from InvoiceSchema_set_get [OF c, of lib "''isSent''"]
    have "js_get (snd (InvoiceSchema_set lib obj)) ''isSent'' = JBool True"
      by (simp add: isSent_not_invoice_path)
    with f pi True show ?thesis
      by (simp add: isSent_true_def Project_findById_save invoice_isSent_def)
  next
    case False
    with s pi show ?thesis
      by (simp add: isSent_true_def Project_findById_save)
  qed
  show ?thesis
    using s stored
    by (simp add: save_invoice_def Let_def split_beta split: store_fault.splits)
qed

lemma invoice_call_keeps_isSent:
  assumes s: "isSent_true d j"
  shows "isSent_true (invoice_call_db lib d c) j"
proof (cases c)
  case (SaveDraft fault i body)
  show ?thesis
  proof (cases "Project_findById d i")
    case None
    with s SaveDraft show ?thesis
      by (simp add: put_save_bill_def split: store_fault.splits)
  next
    case (Some p)
    have "isSent_true (snd (save_invoice lib fault d p
        (js_spread_set body ''isSent'' (js_or (invoice_isSent p) (JBool False))))) j"
    proof (rule save_invoice_keeps_isSent [OF Some s])
      assume "j = i"
      with s Some have "invoice_isSent p = JBool True"
        by (simp add: isSent_true_def)
      then show "js_get (js_spread_set body ''isSent'' (js_or (invoice_isSent p) (JBool False)))
          ''isSent'' = JBool True"
        by (simp add: js_get_spread_same js_or_def)
    qed
    with s Some SaveDraft show ?thesis
      by (cases fault) (simp_all add: put_save_bill_def)
  qed
next
  case (SendInvoice fault i body)
  show ?thesis
  proof (cases "Project_findById d i")
    case None
    with s SendInvoice show ?thesis
      by (simp add: put_send_bill_def split: store_fault.splits)
  next
    case (Some p)
    have "isSent_true (snd (save_invoice lib fault d p
        (js_spread_set body ''isSent'' (JBool True)))) j"
      by (rule save_invoice_keeps_isSent [OF Some s]) (simp add: js_get_spread_same)
    with s Some SendInvoice show ?thesis
      by (cases fault) (simp_all add: put_send_bill_def)
  qed
qed

lemma run_invoice_calls_keep_isSent:
  "isSent_true d j \<Longrightarrow> isSent_true (run_invoice_calls lib d cs) j"
  unfolding run_invoice_calls_def
  by (induction cs arbitrary: d) (simp_all add: invoice_call_keeps_isSent)

lemma invoice_stored_details:
  assumes f: "Project_findById d i = Some p"
    and v: "ProjectSchema_failures p = []"
    and c: "cast_Boolean flag = Some b"
  shows "\<exists>q details.
         save_invoice lib NoFault d p (js_spread_set body ''isSent'' flag) =
           (Response 200 (ProjectDoc q), Project_save q d) \<and>
         Project_findById (Project_save q d) i = Some q \<and>
         invoiceDetails q = Some details \<and>
         js_get details ''isSent'' = b \<and>
         (\<forall>k\<in>set invoice_paths. js_get details k = cast_String lib (js_get body k)) \<and>
         (\<forall>k. k \<notin> set invoice_paths \<and> k \<noteq> ''isSent'' \<longrightarrow> js_get details k = JUndefined)"
proof -
  let ?obj = "js_spread_set body ''isSent'' flag"
  let ?details = "snd (InvoiceSchema_set lib ?obj)"
  let ?q = "p\<lparr>invoiceDetails := Some ?details\<rparr>"
  from f have pi: "pid p = i" by (rule Project_findById_pid)
  from c have c': "cast_Boolean (js_get ?obj ''isSent'') = Some b"
    by (simp add: js_get_spread_same)
  note g = InvoiceSchema_set_get [OF c', of lib]
  show ?thesis
  proof (rule exI [of _ ?q], rule exI [of _ ?details], intro conjI)
    show "save_invoice lib NoFault d p ?obj = (Response 200 (ProjectDoc ?q), Project_save ?q d)"
      by (rule save_invoice_stored [OF c' v])
    show "Project_findById (Project_save ?q d) i = Some ?q"
      using f pi by (simp add: Project_findById_save)
    show "invoiceDetails ?q = Some ?details" by simp
    show "js_get ?details ''isSent'' = b"
      using g [of "''isSent''"] by (simp add: isSent_not_invoice_path)
    show "\<forall>k\<in>set invoice_paths. js_get ?details k = cast_String lib (js_get body k)"
    proof
      fix k assume k: "k \<in> set invoice_paths"
      with isSent_not_invoice_path have "k \<noteq> ''isSent''" by auto
      with k g [of k] show "js_get ?details k = cast_String lib (js_get body k)"
        by (simp add: js_get_spread_other)
    qed
    show "\<forall>k. k \<notin> set invoice_paths \<and> k \<noteq> ''isSent'' \<longrightarrow> js_get ?details k = JUndefined"
      using g by simp
  qed
qed

text \<open>
  Claim C1, as amended. For an existing project that passes the validators of its schema,
  the draft route answers 200 with the project it stores, whose invoice details have
  \<open>isSent\<close> equal to the value the project had before (false if it had none), whatever
  \<open>isSent\<close> the body carries; under each path that the schema declares the details hold
  the value of the body cast to a string, and they hold no other key. The send route does
  the same with \<open>isSent\<close> true, whatever the body carries. And a project whose \<open>isSent\<close>
  is true keeps it true through every sequence of requests to the two routes, on any
  projects, with any bodies, with or without faults of the store.
\<close>

theorem isSent_monotonic:
  "(Project_findById d i = Some p \<and> ProjectSchema_failures p = [] \<longrightarrow>
      (stored_isSent (invoice_isSent p) \<longrightarrow>
       (\<exists>q details.
         put_save_bill lib NoFault d i body = (Response 200 (ProjectDoc q), Project_save q d) \<and>
         Project_findById (Project_save q d) i = Some q \<and>
         invoiceDetails q = Some details \<and>
         js_get details ''isSent'' = JBool (invoice_isSent p = JBool True) \<and>
         (\<forall>k\<in>set invoice_paths. js_get details k = cast_String lib (js_get body k)) \<and>
         (\<forall>k. k \<notin> set invoice_paths \<and> k \<noteq> ''isSent'' \<longrightarrow> js_get details k = JUndefined))) \<and>
      (\<exists>q details.
         put_send_bill lib NoFault d i body = (Response 200 (ProjectDoc q), Project_save q d) \<and>
         Project_findById (Project_save q d) i = Some q \<and>
         invoiceDetails q = Some details \<and>
         js_get details ''isSent'' = JBool True \<and>
         (\<forall>k\<in>set invoice_paths. js_get details k = cast_String lib (js_get body k)) \<and>
         (\<forall>k. k \<notin> set invoice_paths \<and> k \<noteq> ''isSent'' \<longrightarrow> js_get details k = JUndefined))) \<and>
   (isSent_true d j \<longrightarrow> isSent_true (run_invoice_calls lib d cs) j)"
proof (intro conjI impI)
  assume h: "Project_findById d i = Some p \<and> ProjectSchema_failures p = []"
  then have f: "Project_findById d i = Some p" and v: "ProjectSchema_failures p = []"
    by simp_all
  assume "stored_isSent (invoice_isSent p)"
  then have c: "cast_Boolean (js_or (invoice_isSent p) (JBool False)) =
      Some (JBool (invoice_isSent p = JBool True))"
    by (auto simp add: stored_isSent_def js_or_def cast_Boolean_def)
  from invoice_stored_details [OF f v c, of lib body] f
  show "\<exists>q details.
         put_save_bill lib NoFault d i body = (Response 200 (ProjectDoc q), Project_save q d) \<and>
         Project_findById (Project_save q d) i = Some q \<and>
         invoiceDetails q = Some details \<and>
         js_get details ''isSent'' = JBool (invoice_isSent p = JBool True) \<and>
         (\<forall>k\<in>set invoice_paths. js_get details k = cast_String lib (js_get body k)) \<and>
         (\<forall>k. k \<notin> set invoice_paths \<and> k \<noteq> ''isSent'' \<longrightarrow> js_get details k = JUndefined)"
    by (simp add: put_save_bill_def)
next
  assume h: "Project_findById d i = Some p \<and> ProjectSchema_failures p = []"
  then have f: "Project_findById d i = Some p" and v: "ProjectSchema_failures p = []"
    by simp_all
  have c: "cast_Boolean (JBool True) = Some (JBool True)"
    by (simp add: cast_Boolean_def)
  from invoice_stored_details [OF f v c, of lib body] f
  show "\<exists>q details.
         put_send_bill lib NoFault d i body = (Response 200 (ProjectDoc q), Project_save q d) \<and>
         Project_findById (Project_save q d) i = Some q \<and>
         invoiceDetails q = Some details \<and>
         js_get details ''isSent'' = JBool True \<and>
         (\<forall>k\<in>set invoice_paths. js_get details k = cast_String lib (js_get body k)) \<and>
         (\<forall>k. k \<notin> set invoice_paths \<and> k \<noteq> ''isSent'' \<longrightarrow> js_get details k = JUndefined)"
    by (simp add: put_send_bill_def)
next
  assume "isSent_true d j"
  then show "isSent_true (run_invoice_calls lib d cs) j"
    by (rule run_invoice_calls_keep_isSent)
qed

lemma decimal_500: "decimal 500 = ''500''"
  by code_simp

lemma Number_toString_500: "Number_toString lib (Fin 500) = ''500''"
  by (simp add: Number_toString_def decimal_500)

lemma example_project_found: "Project_findById example_db ''p1'' = Some example_project"
  by (simp add: Project_findById_def example_db_def example_project_def)

lemma example_project_valid: "ProjectSchema_failures example_project = []"
  by (simp add: ProjectSchema_failures_def failing_def required_string_def required_value_def
        in_enum_def status_enum_def example_project_def)

text \<open>
  The theorem at a project without invoice details: a draft that asks for
  \<open>isSent = true\<close> with the amount 500 is stored with \<open>isSent = false\<close> and the amount
  as the string 500; and once the invoice was sent, a draft that asks for
  \<open>isSent = false\<close> leaves it true.
\<close>

theorem isSent_monotonic_witness:
  "Project_findById example_db ''p1'' = Some example_project \<and>
   ProjectSchema_failures example_project = [] \<and>
   stored_isSent (invoice_isSent example_project) \<and>
   (\<exists>q details.
      put_save_bill example_library NoFault example_db ''p1''
          [(''isSent'', JBool True), (''amount'', JNum (Fin 500))] =
        (Response 200 (ProjectDoc q), Project_save q example_db) \<and>
      invoiceDetails q = Some details \<and>
      js_get details ''isSent'' = JBool False \<and>
      js_get details ''amount'' = JStr ''500'') \<and>
   isSent_true (snd (put_send_bill example_library NoFault example_db ''p1'' [])) ''p1'' \<and>
   isSent_true
     (run_invoice_calls example_library
        (snd (put_send_bill example_library NoFault example_db ''p1'' []))
        [SaveDraft NoFault ''p1'' [(''isSent'', JBool False)]]) ''p1''"
proof (intro conjI)
  show f: "Project_findById example_db ''p1'' = Some example_project"
    by (rule example_project_found)
  show v: "ProjectSchema_failures example_project = []"
    by (rule example_project_valid)
  show n: "stored_isSent (invoice_isSent example_project)"
    by (simp add: stored_isSent_def invoice_isSent_def example_project_def)
  have fv: "Project_findById example_db ''p1'' = Some example_project \<and>
      ProjectSchema_failures example_project = []"
    using f v by simp
  have e: "invoice_isSent example_project \<noteq> JBool True"
    by (simp add: invoice_isSent_def example_project_def)
  have a: "''amount'' \<in> set invoice_paths"
    by (simp add: invoice_paths_def)
  let ?body = "[(''isSent'', JBool True), (''amount'', JNum (Fin 500))]"
  note t = isSent_monotonic [of example_db "''p1''" example_project example_library ?body]
  from t [THEN conjunct1, THEN mp, OF fv, THEN conjunct1, THEN mp, OF n]
  show "\<exists>q details.
      put_save_bill example_library NoFault example_db ''p1'' ?body =
        (Response 200 (ProjectDoc q), Project_save q example_db) \<and>
      invoiceDetails q = Some details \<and>
      js_get details ''isSent'' = JBool False \<and>
      js_get details ''amount'' = JStr ''500''"
  proof (elim exE conjE)
    fix q details
    assume r: "put_save_bill example_library NoFault example_db ''p1'' ?body =
        (Response 200 (ProjectDoc q), Project_save q example_db)"
      and i: "invoiceDetails q = Some details"
      and s: "js_get details ''isSent'' = JBool (invoice_isSent example_project = JBool True)"
      and k: "\<forall>k\<in>set invoice_paths. js_get details k = cast_String example_library (js_get ?body k)"
    from k a have "js_get details ''amount'' = cast_String example_library (js_get ?body ''amount'')"
      by (rule bspec)
    then have m: "js_get details ''amount'' = JStr ''500''"
      by (simp add: js_get_def Number_toString_500)
    from s e have s': "js_get details ''isSent'' = JBool False" by simp
    show ?thesis
    proof (rule exI [of _ q], rule exI [of _ details], intro conjI)
      show "put_save_bill example_library NoFault example_db ''p1'' ?body =
        (Response 200 (ProjectDoc q), Project_save q example_db)" by (rule r)
      show "invoiceDetails q = Some details" by (rule i)
      show "js_get details ''isSent'' = JBool False" by (rule s')
      show "js_get details ''amount'' = JStr ''500''" by (rule m)
    qed
  qed
  note t0 = isSent_monotonic [of example_db "''p1''" example_project example_library "[]"]
  from t0 [THEN conjunct1, THEN mp, OF fv, THEN conjunct2]
  show sent: "isSent_true (snd (put_send_bill example_library NoFault example_db ''p1'' [])) ''p1''"
  proof (elim exE conjE)
    fix q details
    assume r: "put_send_bill example_library NoFault example_db ''p1'' [] =
        (Response 200 (ProjectDoc q), Project_save q example_db)"
      and g: "Project_findById (Project_save q example_db) ''p1'' = Some q"
      and i: "invoiceDetails q = Some details"
      and s: "js_get details ''isSent'' = JBool True"
    then show ?thesis
      by (simp add: isSent_true_def invoice_isSent_def)
  qed
  note u = isSent_monotonic
      [of "snd (put_send_bill example_library NoFault example_db ''p1'' [])" _ _ example_library _
          "''p1''" "[SaveDraft NoFault ''p1'' [(''isSent'', JBool False)]]"]
  from u [THEN conjunct2, THEN mp, OF sent]
  show "isSent_true
     (run_invoice_calls example_library
        (snd (put_send_bill example_library NoFault example_db ''p1'' []))
        [SaveDraft NoFault ''p1'' [(''isSent'', JBool False)]]) ''p1''" .
qed

text \<open>
  Claim C1 as stated, with the invoice details replaced by the request body, fails on a
  draft whose body carries the amount as the number 500 and a key \<open>foo\<close> that the schema
  does not declare: the details that are stored and answered hold the amount as the
  string 500 and no key \<open>foo\<close>.
\<close>

theorem invoice_details_cast_counterexample:
  "put_save_bill example_library NoFault example_db ''p1''
       [(''invoiceNo'', JStr ''INV-1''), (''amount'', JNum (Fin 500)), (''foo'', JStr ''bar'')] =
     (Response 200
        (ProjectDoc (example_project\<lparr>invoiceDetails :=
           Some [(''invoiceNo'', JStr ''INV-1''), (''amount'', JStr ''500''),
                 (''isSent'', JBool False)]\<rparr>)),
      \<lparr>users = [],
       projects = [example_project\<lparr>invoiceDetails :=
           Some [(''invoiceNo'', JStr ''INV-1''), (''amount'', JStr ''500''),
                 (''isSent'', JBool False)]\<rparr>]\<rparr>)"
proof -
  let ?body = "[(''invoiceNo'', JStr ''INV-1''), (''amount'', JNum (Fin 500)), (''foo'', JStr ''bar'')]"
  let ?obj = "[(''invoiceNo'', JStr ''INV-1''), (''amount'', JNum (Fin 500)),
      (''foo'', JStr ''bar''), (''isSent'', JBool False)]"
  have n: "invoice_isSent example_project = JUndefined"
    by (simp add: invoice_isSent_def example_project_def)
  have s: "InvoiceSchema_set example_library ?obj =
      ([], [(''invoiceNo'', JStr ''INV-1''), (''amount'', JStr ''500''), (''isSent'', JBool False)])"
    by (simp add: InvoiceSchema_set_def Let_def invoice_paths_def js_get_def cast_Boolean_def
          Number_toString_500)
  let ?q = "example_project\<lparr>invoiceDetails :=
           Some [(''invoiceNo'', JStr ''INV-1''), (''amount'', JStr ''500''),
                 (''isSent'', JBool False)]\<rparr>"
  have r: "put_save_bill example_library NoFault example_db ''p1'' ?body =
      save_invoice example_library NoFault example_db example_project ?obj"
    by (simp add: put_save_bill_def example_project_found n js_or_def)
  have t: "save_invoice example_library NoFault example_db example_project ?obj =
      (Response 200 (ProjectDoc ?q), Project_save ?q example_db)"
    by (simp add: save_invoice_def s Let_def ProjectSchema_failures_invoice
          example_project_valid)
  have u: "Project_save ?q example_db = \<lparr>users = [], projects = [?q]\<rparr>"
    by (simp add: Project_save_def example_db_def example_project_def)
  show ?thesis
    by (simp only: r t u)
qed

section \<open>Updating a project\<close>




















section \<open>What an upload writes\<close>

lemma UserSchema_failures_set_upload_path:
  "UserSchema_failures (set_upload_path ext path u) = UserSchema_failures u"
  by (simp add: set_upload_path_def UserSchema_failures_def)

lemma uid_save_timestamps:
  "uid (save_timestamps saved_at u (set_upload_path ext path u)) = uid u"
  by (simp add: save_timestamps_def set_upload_path_def)

lemma post_upload_timestamps_accepted:
  assumes "find (\<lambda>u. uid u = i) us = Some u" and "UserSchema_failures u = []"
    and "fileFilter file"
  shows "post_upload_timestamps lib now NoFault saved_at us i (Some file) =
     (Response 200 (Uploaded ''File uploaded successfully'' (file_path (storage now file))),
      replace_doc uid
        (save_timestamps saved_at u
           (set_upload_path (upload_ext file) (file_path (storage now file)) u)) us)"
  using assms
  by (simp add: post_upload_timestamps_def upload_single_def upload_handler_timestamps_def
        Let_def UserSchema_failures_set_upload_path)
     (simp add: storage_def upload_ext_def)

lemma post_upload_timestamps_refused:
  assumes "\<not> fileFilter file"
  shows "post_upload_timestamps lib now NoFault saved_at us i (Some file) =
     (FilterError ''Error: Only ZIP, PDF, and Video files are allowed!'', us)"
  using assms by (simp add: post_upload_timestamps_def upload_single_def)

lemma documentPath_save_timestamps:
  "documentPath (save_timestamps saved_at u (set_upload_path ext path u)) =
     (if ext \<in> {''.pdf'', ''.zip'', ''.mp4'', ''.mov'', ''.avi'', ''.mkv''} then documentPath u
      else JStr path)"
proof -
  have "documentPath (save_timestamps saved_at u w) = documentPath w" for w
    by (simp add: save_timestamps_def)
  then show ?thesis
    by (simp add: set_upload_path_def)
qed

text \<open>
  Claim C9, as amended. For an upload to an existing user whose document passes the
  validators of the user schema, with a file named in the request: when the extension of
  the file, in lower case, contains none of \<open>zip\<close>, \<open>pdf\<close>, \<open>mp4\<close>, \<open>mov\<close>, \<open>avi\<close>,
  \<open>mkv\<close>, the filter refuses the file and the store is unchanged. Otherwise the handler
  answers 200 and stores the user with the stored path written to one field,
  \<open>pdfPath\<close> for the extension \<open>.pdf\<close>, \<open>zipPath\<close> for \<open>.zip\<close>, \<open>videoPath\<close> for
  \<open>.mp4\<close>, \<open>.mov\<close>, \<open>.avi\<close> and \<open>.mkv\<close>, and \<open>documentPath\<close> for every other
  extension, and with \<open>updatedAt\<close> set to the time of the save when that write changed
  the document; every other field is as before. So the user's \<open>documentPath\<close> after the
  request is the stored path exactly when the extension contains one of the six
  alternatives without being one of the six extensions, and is as before otherwise.
\<close>

theorem upload_writes_one_path:
  "find (\<lambda>u. uid u = i) us = Some u \<and> UserSchema_failures u = [] \<longrightarrow>
     (let ext = upload_ext file;
          path = ''uploads/'' @ now @ ''-'' @ originalname file;
          written =
            (if ext = ''.pdf'' then u\<lparr>pdfPath := JStr path\<rparr>
             else if ext = ''.zip'' then u\<lparr>zipPath := JStr path\<rparr>
             else if ext \<in> {''.mp4'', ''.mov'', ''.avi'', ''.mkv''}
             then u\<lparr>videoPath := JStr path\<rparr>
             else u\<lparr>documentPath := JStr path\<rparr>);
          saved = (if written = u then u else written\<lparr>updatedAt := JStr saved_at\<rparr>)
      in post_upload_timestamps lib now NoFault saved_at us i (Some file) =
           (if list_ex (\<lambda>pat. occurs_in pat ext) filetypes
            then (Response 200 (Uploaded ''File uploaded successfully'' path),
                  replace_doc uid saved us)
            else (FilterError ''Error: Only ZIP, PDF, and Video files are allowed!'', us)) \<and>
         (\<exists>u'. find (\<lambda>u. uid u = i)
                  (snd (post_upload_timestamps lib now NoFault saved_at us i (Some file))) =
                  Some u' \<and>
               documentPath u' =
                 (if list_ex (\<lambda>pat. occurs_in pat ext) filetypes \<and>
                     ext \<notin> {''.pdf'', ''.zip'', ''.mp4'', ''.mov'', ''.avi'', ''.mkv''}
                  then JStr path else documentPath u)))"
proof (intro impI, elim conjE)
  assume f: "find (\<lambda>u. uid u = i) us = Some u" and v: "UserSchema_failures u = []"
  let ?ext = "upload_ext file"
  let ?path = "''uploads/'' @ now @ ''-'' @ originalname file"
  let ?written = "if ?ext = ''.pdf'' then u\<lparr>pdfPath := JStr ?path\<rparr>
             else if ?ext = ''.zip'' then u\<lparr>zipPath := JStr ?path\<rparr>
             else if ?ext \<in> {''.mp4'', ''.mov'', ''.avi'', ''.mkv''}
             then u\<lparr>videoPath := JStr ?path\<rparr>
             else u\<lparr>documentPath := JStr ?path\<rparr>"
  let ?saved = "if ?written = u then u else ?written\<lparr>updatedAt := JStr saved_at\<rparr>"
  let ?accepted = "list_ex (\<lambda>pat. occurs_in pat ?ext) filetypes"
  let ?result = "post_upload_timestamps lib now NoFault saved_at us i (Some file)"
  from f have ui: "uid u = i" by (rule find_key_eq)
  have p: "file_path (storage now file) = ?path" by (simp add: storage_def)
  have w: "set_upload_path ?ext ?path u = ?written"
    by (simp add: set_upload_path_def)
  have s: "save_timestamps saved_at u (set_upload_path ?ext ?path u) = ?saved"
    unfolding w by (simp add: save_timestamps_def)
  have a: "fileFilter file = ?accepted"
    by (simp add: fileFilter_extension filetypes_test_def)
  have r: "?result =
           (if ?accepted
            then (Response 200 (Uploaded ''File uploaded successfully'' ?path),
                  replace_doc uid ?saved us)
            else (FilterError ''Error: Only ZIP, PDF, and Video files are allowed!'', us))"
  proof (cases ?accepted)
    case True
    with a have "fileFilter file" by simp
    from post_upload_timestamps_accepted [OF f v this, of lib now saved_at] True
    show ?thesis by (simp only: p s if_True)
  next
    case False
    with a have "\<not> fileFilter file" by simp
    from post_upload_timestamps_refused [OF this, of lib now saved_at us i] False
    show ?thesis by (simp only: if_False)
  qed
  have us: "uid ?saved = uid u"
    using uid_save_timestamps [of saved_at u ?ext ?path] by (simp only: s)
  have ds: "documentPath ?saved =
      (if ?ext \<in> {''.pdf'', ''.zip'', ''.mp4'', ''.mov'', ''.avi'', ''.mkv''} then documentPath u
       else JStr ?path)"
    using documentPath_save_timestamps [of saved_at u ?ext ?path] by (simp only: s)
  have e: "\<exists>u'. find (\<lambda>u. uid u = i) (snd ?result) = Some u' \<and>
               documentPath u' =
                 (if ?accepted \<and>
                     ?ext \<notin> {''.pdf'', ''.zip'', ''.mp4'', ''.mov'', ''.avi'', ''.mkv''}
                  then JStr ?path else documentPath u)"
  proof (cases ?accepted)
    case True
    have "find (\<lambda>u. uid u = i) (replace_doc uid ?saved us) = Some ?saved"
      using f ui us find_replace_doc [of uid i ?saved us] by simp
    with True r ds show ?thesis
      by (intro exI [of _ ?saved]) (simp only: snd_conv if_True simp_thms, simp)
  next
    case False
    with r f show ?thesis
      by (intro exI [of _ u]) simp
  qed
  from r e show "let ext = upload_ext file;
          path = ''uploads/'' @ now @ ''-'' @ originalname file;
          written =
            (if ext = ''.pdf'' then u\<lparr>pdfPath := JStr path\<rparr>
             else if ext = ''.zip'' then u\<lparr>zipPath := JStr path\<rparr>
             else if ext \<in> {''.mp4'', ''.mov'', ''.avi'', ''.mkv''}
             then u\<lparr>videoPath := JStr path\<rparr>
             else u\<lparr>documentPath := JStr path\<rparr>);
          saved = (if written = u then u else written\<lparr>updatedAt := JStr saved_at\<rparr>)
      in post_upload_timestamps lib now NoFault saved_at us i (Some file) =
           (if list_ex (\<lambda>pat. occurs_in pat ext) filetypes
            then (Response 200 (Uploaded ''File uploaded successfully'' path),
                  replace_doc uid saved us)
            else (FilterError ''Error: Only ZIP, PDF, and Video files are allowed!'', us)) \<and>
         (\<exists>u'. find (\<lambda>u. uid u = i)
                  (snd (post_upload_timestamps lib now NoFault saved_at us i (Some file))) =
                  Some u' \<and>
               documentPath u' =
                 (if list_ex (\<lambda>pat. occurs_in pat ext) filetypes \<and>
                     ext \<notin> {''.pdf'', ''.zip'', ''.mp4'', ''.mov'', ''.avi'', ''.mkv''}
                  then JStr path else documentPath u))"
    unfolding Let_def by (intro conjI)
qed

lemma example_account_found:
  "find (\<lambda>u. uid u = ''s1'') [example_account] = Some example_account"
  by (simp add: example_account_def)

lemma example_account_valid: "UserSchema_failures example_account = []"
  by (simp add: UserSchema_failures_def failing_def required_string_def example_account_def)

lemma upload_ext_examples:
  "upload_ext \<lparr>originalname = ''report.exe'', mimetype = ''application/pdf''\<rparr> = ''.exe''"
  "upload_ext \<lparr>originalname = ''report.pdf'', mimetype = ''application/pdf''\<rparr> = ''.pdf''"
  "upload_ext \<lparr>originalname = ''notes.pdfx'', mimetype = ''text/plain''\<rparr> = ''.pdfx''"
  by (simp_all add: upload_ext_def path_extname_def last_portion_def toLowerCase_def
        lower_char_def)

text \<open>
  The theorem on the collection of the one example account, at three files received at
  the time 1767225600000 and saved at 1767225600123: \<open>report.exe\<close>, sent with the mime
  type of a PDF, is refused and nothing is stored; \<open>report.pdf\<close> is written to
  \<open>pdfPath\<close>, and \<open>notes.pdfx\<close> to \<open>documentPath\<close>, each with \<open>updatedAt\<close>.
\<close>

theorem upload_writes_one_path_witness:
  "find (\<lambda>u. uid u = ''s1'') [example_account] = Some example_account \<and>
   UserSchema_failures example_account = [] \<and>
   post_upload_timestamps example_library ''1767225600000'' NoFault ''1767225600123''
       [example_account] ''s1''
       (Some \<lparr>originalname = ''report.exe'', mimetype = ''application/pdf''\<rparr>) =
     (FilterError ''Error: Only ZIP, PDF, and Video files are allowed!'', [example_account]) \<and>
   post_upload_timestamps example_library ''1767225600000'' NoFault ''1767225600123''
       [example_account] ''s1''
       (Some \<lparr>originalname = ''report.pdf'', mimetype = ''application/pdf''\<rparr>) =
     (Response 200
        (Uploaded ''File uploaded successfully'' ''uploads/1767225600000-report.pdf''),
      [example_account\<lparr>pdfPath := JStr ''uploads/1767225600000-report.pdf'',
                       updatedAt := JStr ''1767225600123''\<rparr>]) \<and>
   post_upload_timestamps example_library ''1767225600000'' NoFault ''1767225600123''
       [example_account] ''s1''
       (Some \<lparr>originalname = ''notes.pdfx'', mimetype = ''text/plain''\<rparr>) =
     (Response 200
        (Uploaded ''File uploaded successfully'' ''uploads/1767225600000-notes.pdfx''),
      [example_account\<lparr>documentPath := JStr ''uploads/1767225600000-notes.pdfx'',
                       updatedAt := JStr ''1767225600123''\<rparr>])"
proof (intro conjI)
  let ?exe = "\<lparr>originalname = ''report.exe'', mimetype = ''application/pdf''\<rparr>"
  let ?pdf = "\<lparr>originalname = ''report.pdf'', mimetype = ''application/pdf''\<rparr>"
  let ?pdfx = "\<lparr>originalname = ''notes.pdfx'', mimetype = ''text/plain''\<rparr>"
  show f: "find (\<lambda>u. uid u = ''s1'') [example_account] = Some example_account"
    by (rule example_account_found)
  show v: "UserSchema_failures example_account = []"
    by (rule example_account_valid)
  have fv: "find (\<lambda>u. uid u = ''s1'') [example_account] = Some example_account \<and>
      UserSchema_failures example_account = []"
    using f v by simp
  have k: "uid example_account = ''s1''"
    by (simp add: example_account_def)
  have n1: "example_account\<lparr>pdfPath := JStr ''uploads/1767225600000-report.pdf''\<rparr> \<noteq>
      example_account"
    by (simp add: example_account_def)
  have n2: "example_account\<lparr>documentPath := JStr ''uploads/1767225600000-notes.pdfx''\<rparr> \<noteq>
      example_account"
    by (simp add: example_account_def)
  from upload_writes_one_path
         [of "''s1''" "[example_account]" example_account ?exe "''1767225600000''"
             "''1767225600123''" example_library, THEN mp, OF fv]
  show "post_upload_timestamps example_library ''1767225600000'' NoFault ''1767225600123''
       [example_account] ''s1'' (Some ?exe) =
     (FilterError ''Error: Only ZIP, PDF, and Video files are allowed!'', [example_account])"
    by (simp add: Let_def upload_ext_examples filetypes_def)
  from upload_writes_one_path
         [of "''s1''" "[example_account]" example_account ?pdf "''1767225600000''"
             "''1767225600123''" example_library, THEN mp, OF fv]
  show "post_upload_timestamps example_library ''1767225600000'' NoFault ''1767225600123''
       [example_account] ''s1'' (Some ?pdf) =
     (Response 200
        (Uploaded ''File uploaded successfully'' ''uploads/1767225600000-report.pdf''),
      [example_account\<lparr>pdfPath := JStr ''uploads/1767225600000-report.pdf'',
                       updatedAt := JStr ''1767225600123''\<rparr>])"
    by (simp add: Let_def upload_ext_examples filetypes_def n1 k)
  from upload_writes_one_path
         [of "''s1''" "[example_account]" example_account ?pdfx "''1767225600000''"
             "''1767225600123''" example_library, THEN mp, OF fv]
  show "post_upload_timestamps example_library ''1767225600000'' NoFault ''1767225600123''
       [example_account] ''s1'' (Some ?pdfx) =
     (Response 200
        (Uploaded ''File uploaded successfully'' ''uploads/1767225600000-notes.pdfx''),
      [example_account\<lparr>documentPath := JStr ''uploads/1767225600000-notes.pdfx'',
                       updatedAt := JStr ''1767225600123''\<rparr>])"
    by (simp add: Let_def upload_ext_examples filetypes_def n2 k)
qed

text \<open>
  Claim C9 as stated, with the path field the only field written, fails on the upload of
  \<open>report.pdf\<close> to the example account: the user that is stored differs from the one
  before in \<open>pdfPath\<close> and in \<open>updatedAt\<close>, which the save sets to its own time.
\<close>

theorem upload_sets_updatedAt_counterexample:
  "snd (post_upload_timestamps example_library ''1767225600000'' NoFault ''1767225600123''
       [example_account] ''s1''
       (Some \<lparr>originalname = ''report.pdf'', mimetype = ''application/pdf''\<rparr>)) =
     [example_account\<lparr>pdfPath := JStr ''uploads/1767225600000-report.pdf'',
                      updatedAt := JStr ''1767225600123''\<rparr>] \<and>
   updatedAt example_account = JStr ''1700000000000'' \<and>
   example_account\<lparr>pdfPath := JStr ''uploads/1767225600000-report.pdf'',
                   updatedAt := JStr ''1767225600123''\<rparr> \<noteq>
   example_account\<lparr>pdfPath := JStr ''uploads/1767225600000-report.pdf''\<rparr>"
proof (intro conjI)
  let ?pdf = "\<lparr>originalname = ''report.pdf'', mimetype = ''application/pdf''\<rparr>"
  have a: "fileFilter ?pdf"
    by (simp add: fileFilter_extension upload_ext_examples filetypes_test_def filetypes_def)
  have k: "uid example_account = ''s1''"
    by (simp add: example_account_def)
  have n: "example_account\<lparr>pdfPath := JStr ''uploads/1767225600000-report.pdf''\<rparr> \<noteq>
      example_account"
    by (simp add: example_account_def)
  from post_upload_timestamps_accepted
         [OF example_account_found example_account_valid a,
          of example_library "''1767225600000''" "''1767225600123''"]
  show "snd (post_upload_timestamps example_library ''1767225600000'' NoFault ''1767225600123''
       [example_account] ''s1'' (Some ?pdf)) =
     [example_account\<lparr>pdfPath := JStr ''uploads/1767225600000-report.pdf'',
                      updatedAt := JStr ''1767225600123''\<rparr>]"
    by (simp add: upload_ext_examples storage_def set_upload_path_def save_timestamps_def n k)
  show "updatedAt example_account = JStr ''1700000000000''"
    by (simp add: example_account_def)
  show "example_account\<lparr>pdfPath := JStr ''uploads/1767225600000-report.pdf'',
                   updatedAt := JStr ''1767225600123''\<rparr> \<noteq>
   example_account\<lparr>pdfPath := JStr ''uploads/1767225600000-report.pdf''\<rparr>"
    by (simp add: example_account_def)
qed

end
